theory Spec2Isabelle
  imports Complex_Main "HOL-Library.AList" "HOL-Library.Char_ord" "HOL-Library.List_Lexorder"
begin

section \<open>Python values\<close>

text \<open>
  Both programs exchange JSON text over MQTT and keep what \<open>json.loads\<close> returns.
  A parsed payload is a value of \<open>json\<close>: \<open>JNull\<close> is \<open>None\<close>, \<open>JNum\<close> is an
  \<open>int\<close> or a \<open>float\<close> (identified by its numeric value, as Python's \<open>==\<close> does;
  the non-standard constant \<open>NaN\<close> is outside the model), \<open>JArr\<close> is a list and
  \<open>JObj\<close> lists the items of a \<open>dict\<close> in insertion order, each key once.
  Strings are byte strings in UTF-8.
\<close>

datatype json =
    JNull
  | JBool bool
  | JNum real
  | JStr string
  | JArr "json list"
  | JObj "(string \<times> json) list"

datatype error =
    UnicodeDecodeError
  | JSONDecodeError
  | ValueError
  | RecursionError
  | AttributeError
  | KeyError
  | TypeError

text \<open>\<open>d.get(k, default)\<close>: only a dict has the method.\<close>

fun py_get :: "json \<Rightarrow> string \<Rightarrow> json \<Rightarrow> error + json" where
  "py_get (JObj items) k d = Inr (case map_of items k of Some v \<Rightarrow> v | None \<Rightarrow> d)"
| "py_get _ k d = Inl AttributeError"

text \<open>\<open>d[k]\<close> with a string key: a missing key raises \<open>KeyError\<close>, and subscripting
  a list, a string, a number or \<open>None\<close> with a string raises \<open>TypeError\<close>.\<close>

fun py_getitem :: "json \<Rightarrow> string \<Rightarrow> error + json" where
  "py_getitem (JObj items) k = (case map_of items k of Some v \<Rightarrow> Inr v | None \<Rightarrow> Inl KeyError)"
| "py_getitem _ k = Inl TypeError"

text \<open>Truth value of a parsed payload, as \<open>if x:\<close> tests it.\<close>

fun py_truthy :: "json \<Rightarrow> bool" where
  "py_truthy JNull = False"
| "py_truthy (JBool b) = b"
| "py_truthy (JNum r) = (r \<noteq> 0)"
| "py_truthy (JStr s) = (s \<noteq> [])"
| "py_truthy (JArr xs) = (xs \<noteq> [])"
| "py_truthy (JObj items) = (items \<noteq> [])"

text \<open>
  Dictionary keys. A key is hashed and compared with \<open>==\<close>, under which \<open>True\<close>,
  \<open>1\<close> and \<open>1.0\<close> are one key; lists and dicts are unhashable and raise
  \<open>TypeError\<close> when used as a key.
\<close>

datatype pykey = KNone | KNum real | KStr string

fun to_key :: "json \<Rightarrow> error + pykey" where
  "to_key JNull = Inr KNone"
| "to_key (JBool b) = Inr (KNum (if b then 1 else 0))"
| "to_key (JNum r) = Inr (KNum r)"
| "to_key (JStr s) = Inr (KStr s)"
| "to_key (JArr xs) = Inl TypeError"
| "to_key (JObj items) = Inl TypeError"

text \<open>
  \<open>x in xs\<close> on a list compares with \<open>==\<close>. \<open>py_canon\<close> maps a value to the
  representative of its class under \<open>==\<close>: a bool becomes the number it equals, and
  the items of a dict, which \<open>==\<close> compares whatever their order, are put in the order
  of their keys.
\<close>

fun py_canon :: "json \<Rightarrow> json" where
  "py_canon (JBool b) = JNum (if b then 1 else 0)"
| "py_canon (JArr xs) = JArr (map py_canon xs)"
| "py_canon (JObj items) = JObj (sort_key fst (map (map_prod id py_canon) items))"
| "py_canon j = j"

definition py_eq :: "json \<Rightarrow> json \<Rightarrow> bool" where
  "py_eq a b = (py_canon a = py_canon b)"

definition py_in :: "json \<Rightarrow> json list \<Rightarrow> bool" where
  "py_in x xs = list_ex (py_eq x) xs"

text \<open>A \<open>datetime\<close> object is identified by the text \<open>isoformat()\<close> returns for it.\<close>

datatype datetime = DateTime string

fun isoformat :: "datetime \<Rightarrow> string" where
  "isoformat (DateTime s) = s"

text \<open>
  An inbound MQTT message. \<open>json.loads(msg.payload.decode('utf-8'))\<close> is library
  code; a payload is classified by what that expression does with its bytes: the
  bytes are not UTF-8 (\<open>UnicodeDecodeError\<close>), the text is not JSON
  (\<open>JSONDecodeError\<close>), the text has an integer of more digits than the interpreter
  converts (\<open>ValueError\<close>), it is nested too deeply (\<open>RecursionError\<close>), or it
  parses to a value.
\<close>

datatype wire =
    NotUtf8
  | NotJson
  | IntTooLong
  | TooDeep
  | Json json

record mqtt_msg =
  topic :: string
  payload :: wire

fun json_loads :: "wire \<Rightarrow> error + json" where
  "json_loads NotUtf8 = Inl UnicodeDecodeError"
| "json_loads NotJson = Inl JSONDecodeError"
| "json_loads IntTooLong = Inl ValueError"
| "json_loads TooDeep = Inl RecursionError"
| "json_loads (Json j) = Inr j"

text \<open>The degree sign is two bytes in UTF-8.\<close>

definition unit_celsius :: string where
  "unit_celsius = [CHR 0xC2, CHR 0xB0, CHR ''C'']"

section \<open>Environmental evaluation (\<open>screen_subscriber.py\<close>)\<close>

text \<open>
  \<open>SensorDataDisplay.evaluate_conditions\<close>. The condition texts are named by a
  datatype; the alert levels are the source's strings. Temperature and humidity are
  numbers and are only compared with integer thresholds.
\<close>

datatype condition =
    TooCold
  | TooHot
  | TemperatureComfortable
  | TooDry
  | TooHumid
  | HumidityComfortable

record evaluation =
  conditions :: "condition list"
  alerts :: "string list"
  overall_status :: string

definition evaluate_conditions :: "real \<Rightarrow> real \<Rightarrow> evaluation" where
  "evaluate_conditions temperature humidity =
     (let (conditions, alerts) = ([], []);
          (conditions, alerts) =
            (if temperature < 18 then (conditions @ [TooCold], alerts @ [''warning''])
             else if temperature > 32 then (conditions @ [TooHot], alerts @ [''danger''])
             else if 20 \<le> temperature \<and> temperature \<le> 26
               then (conditions @ [TemperatureComfortable], alerts @ [''success''])
             else (conditions, alerts));
          (conditions, alerts) =
            (if humidity < 40 then (conditions @ [TooDry], alerts @ [''warning''])
             else if humidity > 70 then (conditions @ [TooHumid], alerts @ [''warning''])
             else if 50 \<le> humidity \<and> humidity \<le> 60
               then (conditions @ [HumidityComfortable], alerts @ [''success''])
             else (conditions, alerts))
      in \<lparr>conditions = conditions, alerts = alerts,
          overall_status =
            (if ''danger'' \<in> set alerts then ''danger''
             else if ''warning'' \<in> set alerts then ''warning'' else ''success'')\<rparr>)"

text \<open>The conditions the humidity branch alone reports.\<close>

definition humidity_conditions :: "real \<Rightarrow> condition list" where
  "humidity_conditions h =
     (if h < 40 then [TooDry] else if h > 70 then [TooHumid]
      else if 50 \<le> h \<and> h \<le> 60 then [HumidityComfortable] else [])"

section \<open>Effects\<close>

text \<open>
  What a handler does besides changing its object is returned as a list of effects, in
  the order of the calls: a line printed to the console, a call of
  \<open>client.publish(topic, json.dumps(payload))\<close>, a call of \<open>socketio.emit\<close> and a
  call of \<open>time.sleep\<close>. The MQTT client and the Socket.IO server are external; the
  model records the call and takes it to return.
\<close>

datatype log =
    LogToggled bool
  | LogEnabledByControl
  | LogDisabledByControl
  | LogControlError error
  | LogSent json json
  | LogPublishError error
  | LogLoopStart
  | LogConnected
  | LogSubscribed string
  | LogConnectFailed int
  | LogDisconnected int
  | LogJsonDecodeError string
  | LogMessageError error
  | LogReceived string json
  | LogStateUpdated json bool
  | LogNotConnected
  | LogCommandSent json json
  | LogCommandIssued json json

type_synonym addr = nat

text \<open>A value held in a dictionary of the observer: a parsed JSON value or a
  \<open>datetime\<close> object.\<close>

datatype pyval = PJ json | PDateTime datetime

type_synonym pydict = "(pykey \<times> pyval) list"

text \<open>The observer's statistics; the uptime and the message rate, which are read off
  the wall clock, are left out.\<close>

record stats =
  stat_message_count :: nat
  stat_connected_devices :: nat
  stat_device_list :: "json list"

text \<open>The contents of a snapshot at the moment it is handed to \<open>socketio.emit\<close>.\<close>

record snapshot_view =
  view_temperature :: pydict
  view_humidity :: pydict
  view_combined :: json
  view_last_update :: pyval
  view_sensor_states :: pydict

datatype emitted =
    EJson json
  | EDataUpdate string json snapshot_view stats
  | EDeviceUpdate pydict
  | EStatusUpdate bool snapshot_view stats

datatype effect =
    Print log
  | Publish string json
  | Emit string emitted
  | Subscribe string
  | Sleep nat

text \<open>The calls of \<open>client.publish\<close> among the effects, in order.\<close>

fun published :: "effect list \<Rightarrow> (string \<times> json) list" where
  "published [] = []"
| "published (Publish t p # es) = (t, p) # published es"
| "published (e # es) = published es"

section \<open>Emitter: \<open>sensor_publisher.py\<close>\<close>

text \<open>The attributes both classes have.\<close>

record mqtt_node =
  client_id :: string
  is_connected :: bool

record sensor = mqtt_node +
  is_running :: bool
  sensor_enabled :: bool
  current_data :: json

definition topic_combined :: string where
  "topic_combined = ''sensors/temp_humidity''"

definition topic_control :: string where
  "topic_control = ''sensors/control''"

text \<open>\<open>__init__\<close>, at the time \<open>now\<close>.\<close>

definition sensor_init :: "string \<Rightarrow> datetime \<Rightarrow> sensor" where
  "sensor_init cid now =
     \<lparr>client_id = cid, is_connected = False, is_running = False, sensor_enabled = True,
      current_data = JObj [(''temperature'', JNum 25), (''humidity'', JNum 60),
                           (''timestamp'', JStr (isoformat now)), (''status'', JStr ''offline'')]\<rparr>"

text \<open>The dictionary the emitter sends with every \<open>status_update\<close>.\<close>

definition status_payload :: "sensor \<Rightarrow> json" where
  "status_payload s =
     JObj [(''connected'', JBool (is_connected s)), (''running'', JBool (is_running s)),
           (''enabled'', JBool (sensor_enabled s)), (''data'', current_data s)]"

text \<open>\<open>d[k] = v\<close> on a parsed dict (\<open>self.current_data["status"] = ...\<close>).\<close>

fun py_setitem :: "json \<Rightarrow> string \<Rightarrow> json \<Rightarrow> json" where
  "py_setitem (JObj items) k v = JObj (AList.update k v items)"
| "py_setitem j k v = j"

text \<open>\<open>handle_toggle_sensor\<close>, the \<open>toggle_sensor\<close> event of the emitter's web page.\<close>

definition handle_toggle_sensor :: "sensor \<Rightarrow> sensor \<times> effect list" where
  "handle_toggle_sensor s =
     (let s' = s\<lparr>sensor_enabled := \<not> sensor_enabled s\<rparr>
      in (s', [Print (LogToggled (sensor_enabled s')),
               Emit ''status_update'' (EJson (status_payload s')),
               Publish (topic_control @ ''/sub'') (status_payload s')]))"

definition sensor_on_connect :: "int \<Rightarrow> sensor \<Rightarrow> sensor \<times> effect list" where
  "sensor_on_connect rc s =
     (if rc = 0 then
        (let s' = s\<lparr>is_connected := True,
                     current_data := py_setitem (current_data s) ''status'' (JStr ''online'')\<rparr>
         in (s', [Print LogConnected, Subscribe topic_control, Print (LogSubscribed topic_control),
                  Emit ''status_update'' (EJson (status_payload s'))]))
      else (s, [Print (LogConnectFailed rc)]))"

definition sensor_on_disconnect :: "int \<Rightarrow> sensor \<Rightarrow> sensor \<times> effect list" where
  "sensor_on_disconnect rc s =
     (let s' = s\<lparr>is_connected := False,
                  current_data := py_setitem (current_data s) ''status'' (JStr ''offline'')\<rparr>
      in (s', [Print (LogDisconnected rc), Emit ''status_update'' (EJson (status_payload s'))]))"

text \<open>
  \<open>TemperatureHumiditySensor.on_message\<close>. The body of the \<open>try\<close> either raises,
  which it can only do before it has changed anything, or returns the new object and
  its effects; \<open>except Exception\<close> prints the error and returns.
\<close>

definition sensor_on_message_body :: "mqtt_msg \<Rightarrow> sensor \<Rightarrow> error + sensor \<times> effect list" where
  "sensor_on_message_body msg s =
     (if topic msg = topic_control then
        (case json_loads (payload msg) of
           Inl e \<Rightarrow> Inl e
         | Inr pl \<Rightarrow>
            (case py_get pl ''command'' (JStr '''') of
               Inl e \<Rightarrow> Inl e
             | Inr command \<Rightarrow>
                (let (s', out) =
                       (if command = JStr ''enable''
                          then (s\<lparr>sensor_enabled := True\<rparr>, [Print LogEnabledByControl])
                        else if command = JStr ''disable''
                          then (s\<lparr>sensor_enabled := False\<rparr>, [Print LogDisabledByControl])
                        else (s, []))
                 in Inr (s', out @ [Emit ''status_update'' (EJson (status_payload s'))]))))
      else Inr (s, []))"

definition sensor_on_message :: "mqtt_msg \<Rightarrow> sensor \<Rightarrow> sensor \<times> effect list" where
  "sensor_on_message msg s =
     (case sensor_on_message_body msg s of
        Inl e \<Rightarrow> (s, [Print (LogControlError e)])
      | Inr r \<Rightarrow> r)"

text \<open>
  One sampling tick draws two random numbers, already rounded, and reads the clock.
\<close>

record tick_input =
  drawn_temperature :: real
  drawn_humidity :: real
  tick_time :: datetime

definition generate_sensor_data :: "tick_input \<Rightarrow> sensor \<Rightarrow> json option \<times> sensor" where
  "generate_sensor_data inp s =
     (if \<not> sensor_enabled s then (None, s)
      else
        (let data = JObj [(''temperature'', JNum (drawn_temperature inp)),
                          (''humidity'', JNum (drawn_humidity inp)),
                          (''timestamp'', JStr (isoformat (tick_time inp))),
                          (''sensor_id'', JStr (client_id s)),
                          (''unit_temp'', JStr unit_celsius),
                          (''unit_humidity'', JStr ''%''),
                          (''status'', JStr (if is_connected s then ''online'' else ''offline''))]
         in (Some data, s\<lparr>current_data := data\<rparr>)))"

text \<open>The two per-quantity payloads \<open>publish_data\<close> builds before it publishes; a
  missing field raises.\<close>

definition build_payload :: "json \<Rightarrow> string \<Rightarrow> string \<Rightarrow> error + json" where
  "build_payload data value_key unit_key =
     (case py_getitem data value_key of
        Inl e \<Rightarrow> Inl e
      | Inr v \<Rightarrow>
         (case py_getitem data unit_key of
            Inl e \<Rightarrow> Inl e
          | Inr u \<Rightarrow>
             (case py_getitem data ''timestamp'' of
                Inl e \<Rightarrow> Inl e
              | Inr t \<Rightarrow>
                 (case py_getitem data ''sensor_id'' of
                    Inl e \<Rightarrow> Inl e
                  | Inr i \<Rightarrow>
                      Inr (JObj [(''value'', v), (''unit'', u), (''timestamp'', t),
                                 (''sensor_id'', i)])))))"

definition publish_data :: "json \<Rightarrow> sensor \<Rightarrow> bool \<times> effect list" where
  "publish_data data s =
     (if \<not> is_connected s \<or> \<not> py_truthy data then (False, [])
      else
        (case build_payload data ''temperature'' ''unit_temp'' of
           Inl e \<Rightarrow> (False, [Print (LogPublishError e)])
         | Inr temp_payload \<Rightarrow>
            (case build_payload data ''humidity'' ''unit_humidity'' of
               Inl e \<Rightarrow> (False, [Print (LogPublishError e)])
             | Inr humidity_payload \<Rightarrow>
                (case py_getitem data ''temperature'' of
                   Inl e \<Rightarrow> (False, [Publish topic_combined data, Print (LogPublishError e)])
                 | Inr t \<Rightarrow>
                    (case py_getitem data ''humidity'' of
                       Inl e \<Rightarrow> (False, [Publish topic_combined data, Print (LogPublishError e)])
                     | Inr h \<Rightarrow>
                        (True, [Publish topic_combined data, Print (LogSent t h),
                                Emit ''data_update'' (EJson data)]))))))"

text \<open>
  The body of the loop of \<open>run_sensor\<close>: generate, publish if there is a reading,
  sleep. Nothing in it raises past \<open>publish_data\<close>, which catches its own errors.
\<close>

definition sensor_tick :: "nat \<Rightarrow> tick_input \<Rightarrow> sensor \<Rightarrow> sensor \<times> effect list" where
  "sensor_tick interval inp s =
     (let (sensor_data, s') = generate_sensor_data inp s
      in case sensor_data of
           None \<Rightarrow> (s', [Sleep interval])
         | Some data \<Rightarrow>
            (if py_truthy data then (s', snd (publish_data data s') @ [Sleep interval])
             else (s', [Sleep interval])))"

text \<open>
  \<open>run_sensor\<close> loops while \<open>is_running\<close> holds, which only \<open>stop\<close> ends. The loop
  is run on the list of the inputs of its ticks: one tick for each, as long as
  \<open>is_running\<close> holds.
\<close>

fun sensor_loop :: "nat \<Rightarrow> tick_input list \<Rightarrow> sensor \<Rightarrow> sensor \<times> effect list" where
  "sensor_loop interval [] s = (s, [])"
| "sensor_loop interval (inp # inps) s =
     (if is_running s then
        (let (s', out) = sensor_tick interval inp s;
             (s'', out') = sensor_loop interval inps s'
         in (s'', out @ out'))
      else (s, []))"

definition run_sensor :: "nat \<Rightarrow> tick_input list \<Rightarrow> sensor \<Rightarrow> sensor \<times> effect list" where
  "run_sensor interval inps s =
     (let (s', out) = sensor_loop interval inps (s\<lparr>is_running := True\<rparr>)
      in (s', Print LogLoopStart # out))"

section \<open>Observer: \<open>screen_subscriber.py\<close>\<close>

text \<open>
  \<open>self.sensor_data\<close> is a dictionary whose entries \<open>temperature\<close>, \<open>humidity\<close>
  and \<open>sensor_states\<close> are dictionaries themselves. Python holds them by reference,
  and \<open>_serialize_sensor_data\<close> copies the outer dictionary only, so the nested ones
  are objects in a store: \<open>heap\<close> maps an address to the dictionary that lives there,
  and the outer dictionary holds addresses. \<open>next_addr\<close> is the next unused address.
\<close>

record sensor_data_dict =
  temperature :: addr
  humidity :: addr
  combined :: json
  last_update :: pyval
  sensor_states :: addr

record display = mqtt_node +
  sensor_data :: sensor_data_dict
  message_count :: nat
  connected_devices :: "json list"
  heap :: "addr \<Rightarrow> pydict"
  next_addr :: addr

definition control_topic :: string where
  "control_topic = ''sensors/control''"

definition display_topics :: "string list" where
  "display_topics = [''sensors/temperature'', ''sensors/humidity'', ''sensors/temp_humidity'',
                     ''sensors/control/sub'']"

text \<open>\<open>__init__\<close>.\<close>

definition display_init :: "string \<Rightarrow> display" where
  "display_init cid =
     \<lparr>client_id = cid, is_connected = False,
      sensor_data = \<lparr>temperature = 0, humidity = 1, combined = JNull,
                     last_update = PJ JNull, sensor_states = 2\<rparr>,
      message_count = 0,
      connected_devices = [],
      heap = (\<lambda>a. [])
        (0 := [(KStr ''value'', PJ (JNum 0)), (KStr ''unit'', PJ (JStr unit_celsius)),
               (KStr ''timestamp'', PJ JNull)],
         1 := [(KStr ''value'', PJ (JNum 0)), (KStr ''unit'', PJ (JStr ''%'')),
               (KStr ''timestamp'', PJ JNull)]),
      next_addr = 3\<rparr>"

text \<open>\<open>obj[k] = v\<close> on the dictionary at an address, and \<open>k in obj\<close>.\<close>

definition dict_setitem :: "addr \<Rightarrow> pykey \<Rightarrow> pyval \<Rightarrow> display \<Rightarrow> display" where
  "dict_setitem a k v s = s\<lparr>heap := (heap s)(a := AList.update k v (heap s a))\<rparr>"

definition dict_contains :: "addr \<Rightarrow> pykey \<Rightarrow> display \<Rightarrow> bool" where
  "dict_contains a k s = (map_of (heap s a) k \<noteq> None)"

text \<open>The dictionary \<open>self.sensor_data["sensor_states"]\<close> and one entry of it.\<close>

definition states_of :: "display \<Rightarrow> pydict" where
  "states_of s = heap s (sensor_states (sensor_data s))"

definition state_of :: "display \<Rightarrow> pykey \<Rightarrow> pyval option" where
  "state_of s k = map_of (states_of s) k"

text \<open>
  \<open>handle_temperature_data\<close> and \<open>handle_humidity_data\<close> build the same dictionary
  from the payload, which raises when a field is missing, and store the new
  dictionary under their key.
\<close>

definition measurement_dict :: "json \<Rightarrow> error + pydict" where
  "measurement_dict data =
     (case py_getitem data ''value'' of
        Inl e \<Rightarrow> Inl e
      | Inr v \<Rightarrow>
         (case py_getitem data ''unit'' of
            Inl e \<Rightarrow> Inl e
          | Inr u \<Rightarrow>
             (case py_getitem data ''timestamp'' of
                Inl e \<Rightarrow> Inl e
              | Inr t \<Rightarrow>
                 (case py_get data ''sensor_id'' (JStr ''unknown'') of
                    Inl e \<Rightarrow> Inl e
                  | Inr i \<Rightarrow>
                      Inr [(KStr ''value'', PJ v), (KStr ''unit'', PJ u),
                           (KStr ''timestamp'', PJ t), (KStr ''sensor_id'', PJ i)]))))"

definition handle_temperature_data :: "json \<Rightarrow> display \<Rightarrow> error option \<times> display" where
  "handle_temperature_data data s =
     (case measurement_dict data of
        Inl e \<Rightarrow> (Some e, s)
      | Inr d \<Rightarrow>
          (None, s\<lparr>sensor_data := (sensor_data s)\<lparr>temperature := next_addr s\<rparr>,
                   heap := (heap s)(next_addr s := d),
                   next_addr := Suc (next_addr s)\<rparr>))"

definition handle_humidity_data :: "json \<Rightarrow> display \<Rightarrow> error option \<times> display" where
  "handle_humidity_data data s =
     (case measurement_dict data of
        Inl e \<Rightarrow> (Some e, s)
      | Inr d \<Rightarrow>
          (None, s\<lparr>sensor_data := (sensor_data s)\<lparr>humidity := next_addr s\<rparr>,
                   heap := (heap s)(next_addr s := d),
                   next_addr := Suc (next_addr s)\<rparr>))"

text \<open>
  \<open>handle_combined_data\<close>. Each statement may raise after the ones before it have
  taken effect, so the object is returned together with the error.
\<close>

definition handle_combined_data :: "json \<Rightarrow> display \<Rightarrow> error option \<times> display" where
  "handle_combined_data data s =
     (let s1 = s\<lparr>sensor_data := (sensor_data s)\<lparr>combined := data\<rparr>\<rparr>
      in case py_getitem data ''temperature'' of
           Inl e \<Rightarrow> (Some e, s1)
         | Inr t \<Rightarrow>
            (let s2 = dict_setitem (temperature (sensor_data s1)) (KStr ''value'') (PJ t) s1
             in case py_getitem data ''humidity'' of
                  Inl e \<Rightarrow> (Some e, s2)
                | Inr h \<Rightarrow>
                   (let s3 = dict_setitem (humidity (sensor_data s2)) (KStr ''value'') (PJ h) s2
                    in case py_get data ''sensor_id'' (JStr ''unknown'') of
                         Inl e \<Rightarrow> (Some e, s3)
                       | Inr sensor_id \<Rightarrow>
                          (if \<not> py_in sensor_id (connected_devices s3) then
                             (let s4 = s3\<lparr>connected_devices := connected_devices s3 @ [sensor_id]\<rparr>
                              in case to_key sensor_id of
                                   Inl e \<Rightarrow> (Some e, s4)
                                 | Inr k \<Rightarrow>
                                    (if \<not> dict_contains (sensor_states (sensor_data s4)) k s4
                                     then (None, dict_setitem (sensor_states (sensor_data s4)) k
                                                   (PJ (JBool True)) s4)
                                     else (None, s4)))
                           else (None, s3)))))"

text \<open>\<open>handle_control_data\<close>, for a message on \<open>sensors/control/sub\<close>.\<close>

definition handle_control_data :: "json \<Rightarrow> display \<Rightarrow> error option \<times> display \<times> effect list" where
  "handle_control_data data s =
     (case py_get data ''enabled'' (JBool False) of
        Inl e \<Rightarrow> (Some e, s, [])
      | Inr enabled \<Rightarrow>
         (case py_get data ''data'' (JObj []) of
            Inl e \<Rightarrow> (Some e, s, [])
          | Inr inner \<Rightarrow>
             (case py_get inner ''sensor_id'' (JStr ''all'') of
                Inl e \<Rightarrow> (Some e, s, [])
              | Inr device_id \<Rightarrow>
                 (case to_key device_id of
                    Inl e \<Rightarrow> (Some e, s, [])
                  | Inr k \<Rightarrow>
                     (let s' = dict_setitem (sensor_states (sensor_data s)) k (PJ enabled) s
                      in (None, s',
                          [Emit ''device_update'' (EDeviceUpdate (states_of s')),
                           Print (LogStateUpdated device_id (py_truthy enabled))]))))))"

text \<open>\<open>send_control_command\<close>, at the time \<open>now\<close>.\<close>

definition send_control_command ::
  "datetime \<Rightarrow> json \<Rightarrow> json \<Rightarrow> display \<Rightarrow> bool \<times> effect list" where
  "send_control_command now command device_id s =
     (if \<not> is_connected s then (False, [Print LogNotConnected])
      else (True, [Publish control_topic
                     (JObj [(''command'', command), (''device_id'', device_id),
                            (''timestamp'', JStr (isoformat now)),
                            (''sender'', JStr (client_id s))]),
                   Print (LogCommandSent command device_id)]))"

definition get_statistics :: "display \<Rightarrow> stats" where
  "get_statistics s =
     \<lparr>stat_message_count = message_count s,
      stat_connected_devices = length (connected_devices s),
      stat_device_list = connected_devices s\<rparr>"

text \<open>
  \<open>_serialize_sensor_data\<close>. \<open>x.isoformat()\<close> exists on a \<open>datetime\<close> only. The
  copy is the outer dictionary; the assignment to a nested \<open>timestamp\<close> goes to the
  dictionary the address names.
\<close>

fun pv_truthy :: "pyval \<Rightarrow> bool" where
  "pv_truthy (PJ j) = py_truthy j"
| "pv_truthy (PDateTime d) = True"

fun pv_isoformat :: "pyval \<Rightarrow> error + pyval" where
  "pv_isoformat (PDateTime d) = Inr (PJ (JStr (isoformat d)))"
| "pv_isoformat (PJ j) = Inl AttributeError"

definition serialize_timestamp :: "addr \<Rightarrow> display \<Rightarrow> error option \<times> display" where
  "serialize_timestamp a s =
     (case map_of (heap s a) (KStr ''timestamp'') of
        None \<Rightarrow> (Some KeyError, s)
      | Some ts \<Rightarrow>
         (if pv_truthy ts then
            (case pv_isoformat ts of
               Inl e \<Rightarrow> (Some e, s)
             | Inr v \<Rightarrow> (None, dict_setitem a (KStr ''timestamp'') v s))
          else (None, s)))"

definition serialize_sensor_data :: "display \<Rightarrow> (error + sensor_data_dict) \<times> display" where
  "serialize_sensor_data s =
     (let serialized_data = sensor_data s
      in case (if pv_truthy (last_update serialized_data)
               then pv_isoformat (last_update serialized_data)
               else Inr (last_update serialized_data)) of
           Inl e \<Rightarrow> (Inl e, s)
         | Inr lu \<Rightarrow>
            (let serialized_data = serialized_data\<lparr>last_update := lu\<rparr>
             in case serialize_timestamp (temperature serialized_data) s of
                  (Some e, s1) \<Rightarrow> (Inl e, s1)
                | (None, s1) \<Rightarrow>
                   (case serialize_timestamp (humidity serialized_data) s1 of
                      (Some e, s2) \<Rightarrow> (Inl e, s2)
                    | (None, s2) \<Rightarrow> (Inr serialized_data, s2))))"

text \<open>What a reader of a snapshot sees: the nested dictionaries are looked up in the
  store at the time of reading.\<close>

definition view :: "display \<Rightarrow> sensor_data_dict \<Rightarrow> snapshot_view" where
  "view s d =
     \<lparr>view_temperature = heap s (temperature d),
      view_humidity = heap s (humidity d),
      view_combined = combined d,
      view_last_update = last_update d,
      view_sensor_states = heap s (sensor_states d)\<rparr>"

text \<open>\<open>SensorDataDisplay.on_message\<close>, at the time \<open>now\<close>.\<close>

definition display_dispatch ::
  "string \<Rightarrow> json \<Rightarrow> display \<Rightarrow> error option \<times> display \<times> effect list" where
  "display_dispatch tp data s =
     (if tp = ''sensors/temperature''
        then (let (r, s') = handle_temperature_data data s in (r, s', []))
      else if tp = ''sensors/humidity''
        then (let (r, s') = handle_humidity_data data s in (r, s', []))
      else if tp = ''sensors/temp_humidity''
        then (let (r, s') = handle_combined_data data s in (r, s', []))
      else if tp = ''sensors/control/sub''
        then handle_control_data data s
      else (None, s, []))"

definition display_on_message :: "datetime \<Rightarrow> mqtt_msg \<Rightarrow> display \<Rightarrow> display \<times> effect list" where
  "display_on_message now msg s =
     (case json_loads (payload msg) of
        Inl e \<Rightarrow>
          (s, [Print (if e = JSONDecodeError then LogJsonDecodeError (topic msg)
                      else LogMessageError e)])
      | Inr data \<Rightarrow>
         (case display_dispatch (topic msg) data (s\<lparr>message_count := message_count s + 1\<rparr>) of
            (Some e, s2, out) \<Rightarrow> (s2, out @ [Print (LogMessageError e)])
          | (None, s2, out) \<Rightarrow>
             (case serialize_sensor_data
                     (s2\<lparr>sensor_data := (sensor_data s2)\<lparr>last_update := PDateTime now\<rparr>\<rparr>) of
                (Inl e, s3) \<Rightarrow> (s3, out @ [Print (LogMessageError e)])
              | (Inr serialized_data, s3) \<Rightarrow>
                  (s3, out @ [Emit ''data_update''
                                (EDataUpdate (topic msg) data (view s3 serialized_data)
                                   (get_statistics s3)),
                              Print (LogReceived (topic msg) data)]))))"

text \<open>
  \<open>handle_control_device\<close>, the \<open>control_device\<close> event of the dashboard. An error
  is not caught here: it leaves the handler with what has been done so far.
\<close>

fun set_all_states :: "json list \<Rightarrow> bool \<Rightarrow> display \<Rightarrow> error option \<times> display" where
  "set_all_states [] v s = (None, s)"
| "set_all_states (device # devices) v s =
     (case to_key device of
        Inl e \<Rightarrow> (Some e, s)
      | Inr k \<Rightarrow>
          set_all_states devices v
            (dict_setitem (sensor_states (sensor_data s)) k (PJ (JBool v)) s))"

definition handle_control_device ::
  "datetime \<Rightarrow> json \<Rightarrow> display \<Rightarrow> error option \<times> display \<times> effect list" where
  "handle_control_device now data s =
     (case py_get data ''command'' (JStr '''') of
        Inl e \<Rightarrow> (Some e, s, [])
      | Inr command \<Rightarrow>
         (case py_get data ''device_id'' (JStr ''all'') of
            Inl e \<Rightarrow> (Some e, s, [])
          | Inr device_id \<Rightarrow>
             (if command = JStr ''enable'' \<or> command = JStr ''disable'' then
                (let out = snd (send_control_command now command device_id s);
                     (r, s1) =
                       (if device_id \<noteq> JStr ''all'' then
                          (case to_key device_id of
                             Inl e \<Rightarrow> (Some e, s)
                           | Inr k \<Rightarrow>
                               (None, dict_setitem (sensor_states (sensor_data s)) k
                                        (PJ (JBool (command = JStr ''enable''))) s))
                        else if command = JStr ''enable''
                          then set_all_states (connected_devices s) True s
                        else if command = JStr ''disable''
                          then set_all_states (connected_devices s) False s
                        else (None, s))
                 in case r of
                      Some e \<Rightarrow> (Some e, s1, out)
                    | None \<Rightarrow>
                       (case serialize_sensor_data s1 of
                          (Inl e, s2) \<Rightarrow>
                            (Some e, s2, out @ [Print (LogCommandIssued command device_id)])
                        | (Inr serialized_data, s2) \<Rightarrow>
                            (None, s2,
                             out @ [Print (LogCommandIssued command device_id),
                                    Emit ''data_update''
                                      (EDataUpdate control_topic
                                         (JObj [(''command'', command), (''device_id'', device_id)])
                                         (view s2 serialized_data) (get_statistics s2))])))
              else (None, s, []))))"

section \<open>Observer: runs\<close>

text \<open>
  The observer is driven by two kinds of events, each at the time the clock shows: a
  message delivered by the MQTT client to \<open>on_message\<close>, and a \<open>control_device\<close>
  event delivered by the Socket.IO server to \<open>handle_control_device\<close>. A run applies
  the events in order; the object after an event is the one its handler leaves behind,
  also when the handler raises.
\<close>

datatype observer_event =
    Message mqtt_msg
  | ControlDevice json

fun observer_step :: "datetime \<times> observer_event \<Rightarrow> display \<Rightarrow> display" where
  "observer_step (now, Message msg) s = fst (display_on_message now msg s)"
| "observer_step (now, ControlDevice data) s = fst (snd (handle_control_device now data s))"

definition observer_run :: "(datetime \<times> observer_event) list \<Rightarrow> display \<Rightarrow> display" where
  "observer_run evs s = fold observer_step evs s"

text \<open>
  The value an event carries for the device with key \<open>k\<close>: an optimistic edit is a
  \<open>control_device\<close> event with the command \<open>enable\<close> or \<open>disable\<close> for that device,
  an acknowledgement is a message on \<open>sensors/control/sub\<close> that names that device.
\<close>

definition edit_value :: "pykey \<Rightarrow> json \<Rightarrow> json option" where
  "edit_value k data =
     (case py_get data ''command'' (JStr '''') of
        Inl e \<Rightarrow> None
      | Inr command \<Rightarrow>
         (case py_get data ''device_id'' (JStr ''all'') of
            Inl e \<Rightarrow> None
          | Inr device_id \<Rightarrow>
             (if (command = JStr ''enable'' \<or> command = JStr ''disable'') \<and>
                 device_id \<noteq> JStr ''all'' \<and> to_key device_id = Inr k
              then Some (JBool (command = JStr ''enable'')) else None)))"

definition ack_value :: "pykey \<Rightarrow> mqtt_msg \<Rightarrow> json option" where
  "ack_value k msg =
     (if topic msg = ''sensors/control/sub'' then
        (case payload msg of
           Json data \<Rightarrow>
             (case py_get data ''enabled'' (JBool False) of
                Inl e \<Rightarrow> None
              | Inr enabled \<Rightarrow>
                 (case py_get data ''data'' (JObj []) of
                    Inl e \<Rightarrow> None
                  | Inr inner \<Rightarrow>
                     (case py_get inner ''sensor_id'' (JStr ''all'') of
                        Inl e \<Rightarrow> None
                      | Inr device_id \<Rightarrow>
                          (if to_key device_id = Inr k then Some enabled else None))))
         | _ \<Rightarrow> None)
      else None)"

fun carried :: "pykey \<Rightarrow> observer_event \<Rightarrow> json option" where
  "carried k (Message msg) = ack_value k msg"
| "carried k (ControlDevice data) = edit_value k data"

text \<open>The value carried by the last acknowledgement for \<open>k\<close> among the events, if
  there is one.\<close>

fun last_ack_value :: "pykey \<Rightarrow> (datetime \<times> observer_event) list \<Rightarrow> json option" where
  "last_ack_value k [] = None"
| "last_ack_value k ((now, Message msg) # evs) =
     (case last_ack_value k evs of
        Some v \<Rightarrow> Some v
      | None \<Rightarrow> ack_value k msg)"
| "last_ack_value k ((now, ControlDevice data) # evs) = last_ack_value k evs"

text \<open>The reading an event delivers, if it is a parsed message on the readings topic,
  and the last reading delivered in a run.\<close>

fun reading_of :: "observer_event \<Rightarrow> json option" where
  "reading_of (Message msg) =
     (if topic msg = ''sensors/temp_humidity''
      then (case payload msg of Json data \<Rightarrow> Some data | _ \<Rightarrow> None)
      else None)"
| "reading_of (ControlDevice data) = None"

fun last_reading :: "(datetime \<times> observer_event) list \<Rightarrow> json option" where
  "last_reading [] = None"
| "last_reading ((now, ev) # evs) =
     (case last_reading evs of
        Some d \<Rightarrow> Some d
      | None \<Rightarrow> reading_of ev)"

section \<open>Verified properties\<close>

subsection \<open>Environmental evaluation\<close>

text \<open>
  Claim C10. The evaluation reports the overall status \<open>danger\<close> exactly when the
  temperature is strictly above 32, whatever the humidity is; and for a temperature in
  one of the gaps \<open>18 \<le> t < 20\<close> and \<open>26 < t \<le> 32\<close> the reported conditions are the
  humidity conditions only, with no temperature condition among them.
\<close>

theorem evaluate_conditions_danger:
  "(overall_status (evaluate_conditions t h) = ''danger'' \<longleftrightarrow> 32 < t) \<and>
   ((18 \<le> t \<and> t < 20) \<or> (26 < t \<and> t \<le> 32) \<longrightarrow>
      conditions (evaluate_conditions t h) = humidity_conditions h \<and>
      set (conditions (evaluate_conditions t h)) \<inter> {TooCold, TooHot, TemperatureComfortable} = {})"
  by (auto simp add: evaluate_conditions_def humidity_conditions_def)

theorem evaluate_conditions_danger_witness:
  "(overall_status (evaluate_conditions 19 75) = ''danger'' \<longleftrightarrow> (32::real) < 19) \<and>
   ((18::real) \<le> 19 \<and> (19::real) < 20) \<and>
   conditions (evaluate_conditions 19 75) = [TooHumid] \<and>
   overall_status (evaluate_conditions 33 55) = ''danger''"
  using evaluate_conditions_danger [of 19 75] evaluate_conditions_danger [of 33 55]
  by (simp add: humidity_conditions_def)

subsection \<open>Emitter: the sampling tick\<close>

lemma sensor_tick_is_running: "is_running (fst (sensor_tick n inp s)) = is_running s"
  by (simp add: sensor_tick_def generate_sensor_data_def Let_def split: option.splits)

lemma sensor_tick_sleeps_once:
  "length (filter (\<lambda>e. e = Sleep n) (snd (sensor_tick n inp s))) = 1"
  by (simp add: sensor_tick_def generate_sensor_data_def Let_def publish_data_def
      build_payload_def)

lemma sensor_loop_ticks:
  "is_running s \<Longrightarrow>
   length (filter (\<lambda>e. e = Sleep n) (snd (sensor_loop n inps s))) = length inps"
proof (induction inps arbitrary: s)
  case Nil
  then show ?case by simp
next
  case (Cons inp inps)
  have running: "is_running (fst (sensor_tick n inp s))"
    using Cons.prems by (simp add: sensor_tick_is_running)
  show ?case
    using Cons.IH [OF running] Cons.prems sensor_tick_sleeps_once [of n inp s]
    by (simp add: split_beta Let_def)
qed

lemma published_append: "published (xs @ ys) = published xs @ published ys"
  by (induction xs rule: published.induct) simp_all

lemma sensor_tick_flags:
  "sensor_enabled (fst (sensor_tick n inp s)) = sensor_enabled s \<and>
   is_connected (fst (sensor_tick n inp s)) = is_connected s \<and>
   client_id (fst (sensor_tick n inp s)) = client_id s"
  by (simp add: sensor_tick_def generate_sensor_data_def Let_def split: option.splits)

lemma sensor_tick_effects:
  "snd (sensor_tick n inp s) =
     (if sensor_enabled s \<and> is_connected s then
        [Publish topic_combined
           (JObj [(''temperature'', JNum (drawn_temperature inp)),
                  (''humidity'', JNum (drawn_humidity inp)),
                  (''timestamp'', JStr (isoformat (tick_time inp))),
                  (''sensor_id'', JStr (client_id s)),
                  (''unit_temp'', JStr unit_celsius),
                  (''unit_humidity'', JStr ''%''),
                  (''status'', JStr ''online'')]),
         Print (LogSent (JNum (drawn_temperature inp)) (JNum (drawn_humidity inp))),
         Emit ''data_update''
           (EJson (JObj [(''temperature'', JNum (drawn_temperature inp)),
                         (''humidity'', JNum (drawn_humidity inp)),
                         (''timestamp'', JStr (isoformat (tick_time inp))),
                         (''sensor_id'', JStr (client_id s)),
                         (''unit_temp'', JStr unit_celsius),
                         (''unit_humidity'', JStr ''%''),
                         (''status'', JStr ''online'')])),
         Sleep n]
      else [Sleep n])"
  by (simp add: sensor_tick_def generate_sensor_data_def Let_def publish_data_def
      build_payload_def)

lemma sensor_tick_state:
  "fst (sensor_tick n inp s) =
     (if sensor_enabled s then
        s\<lparr>current_data :=
            JObj [(''temperature'', JNum (drawn_temperature inp)),
                  (''humidity'', JNum (drawn_humidity inp)),
                  (''timestamp'', JStr (isoformat (tick_time inp))),
                  (''sensor_id'', JStr (client_id s)),
                  (''unit_temp'', JStr unit_celsius),
                  (''unit_humidity'', JStr ''%''),
                  (''status'', JStr (if is_connected s then ''online'' else ''offline''))]\<rparr>
      else s)"
  by (simp add: sensor_tick_def generate_sensor_data_def Let_def)

lemma sensor_loop_published:
  "is_running s \<Longrightarrow>
   published (snd (sensor_loop n inps s)) =
     (if sensor_enabled s \<and> is_connected s then
        map (\<lambda>inp. (topic_combined,
               JObj [(''temperature'', JNum (drawn_temperature inp)),
                     (''humidity'', JNum (drawn_humidity inp)),
                     (''timestamp'', JStr (isoformat (tick_time inp))),
                     (''sensor_id'', JStr (client_id s)),
                     (''unit_temp'', JStr unit_celsius),
                     (''unit_humidity'', JStr ''%''),
                     (''status'', JStr ''online'')])) inps
      else [])"
proof (induction inps arbitrary: s)
  case Nil
  then show ?case by simp
next
  case (Cons inp inps)
  have running: "is_running (fst (sensor_tick n inp s))"
    using Cons.prems by (simp add: sensor_tick_is_running)
  show ?case
    using Cons.IH [OF running] Cons.prems sensor_tick_flags [of n inp s]
      sensor_tick_effects [of n inp s]
    by (simp add: split_beta Let_def published_append)
qed

text \<open>
  Claim C9. A tick calls \<open>client.publish\<close> exactly when the emitter is enabled and
  connected. Then its effects are: the reading it has just generated (the two drawn
  numbers, the time of the tick, its own \<open>client_id\<close>, the units, the status
  \<open>online\<close>) published once on the readings topic, a printed line, the same reading
  sent to the web page, and the sleep. A tick taken while disabled or disconnected
  does nothing but sleep: it publishes nothing and prints no error. As to the object,
  a disabled tick leaves it as it is; an enabled tick, connected or not, generates a
  reading and keeps it as \<open>current_data\<close>, and changes nothing else, so
  \<open>is_running\<close> stays and the loop goes on. \<open>run_sensor\<close>, on any list of tick
  inputs, completes one tick for each and publishes, in order, exactly one reading for
  each input when the emitter is enabled and connected, and nothing otherwise; so does
  its loop from any object with \<open>is_running\<close> set.
\<close>

theorem sensor_tick_publishes_iff:
  "(published (snd (sensor_tick n inp s)) \<noteq> [] \<longleftrightarrow> sensor_enabled s \<and> is_connected s) \<and>
   snd (sensor_tick n inp s) =
     (if sensor_enabled s \<and> is_connected s then
        [Publish topic_combined
           (JObj [(''temperature'', JNum (drawn_temperature inp)),
                  (''humidity'', JNum (drawn_humidity inp)),
                  (''timestamp'', JStr (isoformat (tick_time inp))),
                  (''sensor_id'', JStr (client_id s)),
                  (''unit_temp'', JStr unit_celsius),
                  (''unit_humidity'', JStr ''%''),
                  (''status'', JStr ''online'')]),
         Print (LogSent (JNum (drawn_temperature inp)) (JNum (drawn_humidity inp))),
         Emit ''data_update''
           (EJson (JObj [(''temperature'', JNum (drawn_temperature inp)),
                         (''humidity'', JNum (drawn_humidity inp)),
                         (''timestamp'', JStr (isoformat (tick_time inp))),
                         (''sensor_id'', JStr (client_id s)),
                         (''unit_temp'', JStr unit_celsius),
                         (''unit_humidity'', JStr ''%''),
                         (''status'', JStr ''online'')])),
         Sleep n]
      else [Sleep n]) \<and>
   fst (sensor_tick n inp s) =
     (if sensor_enabled s then
        s\<lparr>current_data :=
            JObj [(''temperature'', JNum (drawn_temperature inp)),
                  (''humidity'', JNum (drawn_humidity inp)),
                  (''timestamp'', JStr (isoformat (tick_time inp))),
                  (''sensor_id'', JStr (client_id s)),
                  (''unit_temp'', JStr unit_celsius),
                  (''unit_humidity'', JStr ''%''),
                  (''status'', JStr (if is_connected s then ''online'' else ''offline''))]\<rparr>
      else s) \<and>
   published (snd (run_sensor n inps s)) =
     (if sensor_enabled s \<and> is_connected s then
        map (\<lambda>inp. (topic_combined,
               JObj [(''temperature'', JNum (drawn_temperature inp)),
                     (''humidity'', JNum (drawn_humidity inp)),
                     (''timestamp'', JStr (isoformat (tick_time inp))),
                     (''sensor_id'', JStr (client_id s)),
                     (''unit_temp'', JStr unit_celsius),
                     (''unit_humidity'', JStr ''%''),
                     (''status'', JStr ''online'')])) inps
      else []) \<and>
   length (filter (\<lambda>e. e = Sleep n) (snd (run_sensor n inps s))) = length inps \<and>
   (is_running s \<longrightarrow>
      published (snd (sensor_loop n inps s)) =
        (if sensor_enabled s \<and> is_connected s then
           map (\<lambda>inp. (topic_combined,
                  JObj [(''temperature'', JNum (drawn_temperature inp)),
                        (''humidity'', JNum (drawn_humidity inp)),
                        (''timestamp'', JStr (isoformat (tick_time inp))),
                        (''sensor_id'', JStr (client_id s)),
                        (''unit_temp'', JStr unit_celsius),
                        (''unit_humidity'', JStr ''%''),
                        (''status'', JStr ''online'')])) inps
         else []) \<and>
      length (filter (\<lambda>e. e = Sleep n) (snd (sensor_loop n inps s))) = length inps)"
proof -
  have a: "published (snd (sensor_tick n inp s)) \<noteq> [] \<longleftrightarrow> sensor_enabled s \<and> is_connected s"
    by (simp add: sensor_tick_effects)
  have run_published: "published (snd (run_sensor n inps s)) =
     (if sensor_enabled s \<and> is_connected s then
        map (\<lambda>inp. (topic_combined,
               JObj [(''temperature'', JNum (drawn_temperature inp)),
                     (''humidity'', JNum (drawn_humidity inp)),
                     (''timestamp'', JStr (isoformat (tick_time inp))),
                     (''sensor_id'', JStr (client_id s)),
                     (''unit_temp'', JStr unit_celsius),
                     (''unit_humidity'', JStr ''%''),
                     (''status'', JStr ''online'')])) inps
      else [])"
    using sensor_loop_published [of "s\<lparr>is_running := True\<rparr>" n inps]
    by (simp add: run_sensor_def split_beta)
  have run_sleeps:
    "length (filter (\<lambda>e. e = Sleep n) (snd (run_sensor n inps s))) = length inps"
    using sensor_loop_ticks [of "s\<lparr>is_running := True\<rparr>" n inps]
    by (simp add: run_sensor_def split_beta)
  show ?thesis
    using a sensor_tick_effects [of n inp s] sensor_tick_state [of n inp s]
      run_published run_sleeps sensor_loop_published [of s n inps]
      sensor_loop_ticks [of s n inps]
    by blast
qed

theorem sensor_tick_publishes_iff_witness:
  "is_running ((sensor_init ''s1'' (DateTime ''t0''))\<lparr>is_connected := True, is_running := True\<rparr>) \<and>
   published (snd (sensor_loop 3
       [\<lparr>drawn_temperature = 21, drawn_humidity = 40, tick_time = DateTime ''t1''\<rparr>,
        \<lparr>drawn_temperature = 22, drawn_humidity = 41, tick_time = DateTime ''t2''\<rparr>]
       ((sensor_init ''s1'' (DateTime ''t0''))\<lparr>is_connected := True, is_running := True\<rparr>))) =
     [(topic_combined,
       JObj [(''temperature'', JNum 21), (''humidity'', JNum 40), (''timestamp'', JStr ''t1''),
             (''sensor_id'', JStr ''s1''), (''unit_temp'', JStr unit_celsius),
             (''unit_humidity'', JStr ''%''), (''status'', JStr ''online'')]),
      (topic_combined,
       JObj [(''temperature'', JNum 22), (''humidity'', JNum 41), (''timestamp'', JStr ''t2''),
             (''sensor_id'', JStr ''s1''), (''unit_temp'', JStr unit_celsius),
             (''unit_humidity'', JStr ''%''), (''status'', JStr ''online'')])] \<and>
   length (filter (\<lambda>e. e = Sleep 3) (snd (sensor_loop 3
       [\<lparr>drawn_temperature = 21, drawn_humidity = 40, tick_time = DateTime ''t1''\<rparr>,
        \<lparr>drawn_temperature = 22, drawn_humidity = 41, tick_time = DateTime ''t2''\<rparr>]
       ((sensor_init ''s1'' (DateTime ''t0''))\<lparr>is_connected := True, is_running := True\<rparr>)))) = 2 \<and>
   published (snd (run_sensor 3
       [\<lparr>drawn_temperature = 21, drawn_humidity = 40, tick_time = DateTime ''t1''\<rparr>,
        \<lparr>drawn_temperature = 22, drawn_humidity = 41, tick_time = DateTime ''t2''\<rparr>]
       (sensor_init ''s1'' (DateTime ''t0'')))) = [] \<and>
   snd (sensor_tick 3
       \<lparr>drawn_temperature = 21, drawn_humidity = 40, tick_time = DateTime ''t1''\<rparr>
       (sensor_init ''s1'' (DateTime ''t0''))) = [Sleep 3]"
  using sensor_tick_publishes_iff [of 3
      "\<lparr>drawn_temperature = 21, drawn_humidity = 40, tick_time = DateTime ''t1''\<rparr>"
      "(sensor_init ''s1'' (DateTime ''t0''))\<lparr>is_connected := True, is_running := True\<rparr>"
      "[\<lparr>drawn_temperature = 21, drawn_humidity = 40, tick_time = DateTime ''t1''\<rparr>,
        \<lparr>drawn_temperature = 22, drawn_humidity = 41, tick_time = DateTime ''t2''\<rparr>]"]
    sensor_tick_publishes_iff [of 3
      "\<lparr>drawn_temperature = 21, drawn_humidity = 40, tick_time = DateTime ''t1''\<rparr>"
      "sensor_init ''s1'' (DateTime ''t0'')"
      "[\<lparr>drawn_temperature = 21, drawn_humidity = 40, tick_time = DateTime ''t1''\<rparr>,
        \<lparr>drawn_temperature = 22, drawn_humidity = 41, tick_time = DateTime ''t2''\<rparr>]"]
  by (simp add: sensor_init_def)

subsection \<open>Unparseable payloads\<close>

text \<open>
  Claim C8. When the payload of an inbound message cannot be parsed (decoding its
  bytes or parsing its text raises, whichever the error), neither process raises: the
  observer returns with its object unchanged and exactly one printed line, a decode
  error for text that is not JSON; the emitter returns with its object unchanged and nothing published, and
  on its control topic, the only one it subscribes to, with exactly one printed line
  for the error.
\<close>

theorem unparseable_payload_dropped:
  "json_loads (payload msg) = Inl e \<Longrightarrow>
     display_on_message now msg d =
       (d, [Print (if e = JSONDecodeError then LogJsonDecodeError (topic msg)
                   else LogMessageError e)]) \<and>
     fst (sensor_on_message msg s) = s \<and>
     published (snd (sensor_on_message msg s)) = [] \<and>
     (topic msg = topic_control \<longrightarrow> sensor_on_message msg s = (s, [Print (LogControlError e)]))"
  by (simp add: display_on_message_def sensor_on_message_def sensor_on_message_body_def)

theorem unparseable_payload_dropped_witness:
  "json_loads (payload \<lparr>topic = ''sensors/control'', payload = NotJson\<rparr>) = Inl JSONDecodeError \<and>
   topic \<lparr>topic = ''sensors/control'', payload = NotJson\<rparr> = topic_control \<and>
   display_on_message (DateTime ''t1'') \<lparr>topic = ''sensors/control'', payload = NotJson\<rparr>
       (display_init ''display_001'') =
     (display_init ''display_001'', [Print (LogJsonDecodeError ''sensors/control'')]) \<and>
   sensor_on_message \<lparr>topic = ''sensors/control'', payload = NotJson\<rparr>
       (sensor_init ''sensor_001'' (DateTime ''t0'')) =
     (sensor_init ''sensor_001'' (DateTime ''t0''), [Print (LogControlError JSONDecodeError)])"
  using unparseable_payload_dropped [of "\<lparr>topic = ''sensors/control'', payload = NotJson\<rparr>"
      JSONDecodeError "DateTime ''t1''" "display_init ''display_001''"
      "sensor_init ''sensor_001'' (DateTime ''t0'')"]
  by (simp add: topic_control_def)

subsection \<open>Emitter: control commands\<close>

text \<open>
  Claim C2, evaluated on the code. The emitter \<open>sensor_001\<close>, enabled, receives on
  the control topic the command \<open>disable\<close> that the observer sends for the device
  \<open>sensor_002\<close>. \<open>on_message\<close> never reads \<open>device_id\<close>: the emitter is disabled.
\<close>

theorem control_command_for_other_device:
  "sensor_enabled (sensor_init ''sensor_001'' (DateTime ''t0'')) = True \<and>
   sensor_enabled (fst (sensor_on_message
      \<lparr>topic = ''sensors/control'',
       payload = Json (JObj [(''command'', JStr ''disable''), (''device_id'', JStr ''sensor_002''),
                             (''timestamp'', JStr ''t1''), (''sender'', JStr ''display_001'')])\<rparr>
      (sensor_init ''sensor_001'' (DateTime ''t0'')))) = False"
  by (simp add: sensor_on_message_def sensor_on_message_body_def sensor_init_def
      topic_control_def)

text \<open>
  Claim C1 as stated fails: the emitter \<open>sensor_001\<close> receives the command
  \<open>disable\<close> for \<open>all\<close>, sets its flag, and calls \<open>client.publish\<close> not once.
\<close>

theorem control_command_not_acknowledged:
  "sensor_enabled (fst (sensor_on_message
      \<lparr>topic = ''sensors/control'',
       payload = Json (JObj [(''command'', JStr ''disable''), (''device_id'', JStr ''all''),
                             (''timestamp'', JStr ''t1''), (''sender'', JStr ''display_001'')])\<rparr>
      (sensor_init ''sensor_001'' (DateTime ''t0'')))) = False \<and>
   published (snd (sensor_on_message
      \<lparr>topic = ''sensors/control'',
       payload = Json (JObj [(''command'', JStr ''disable''), (''device_id'', JStr ''all''),
                             (''timestamp'', JStr ''t1''), (''sender'', JStr ''display_001'')])\<rparr>
      (sensor_init ''sensor_001'' (DateTime ''t0'')))) = []"
  by (simp add: sensor_on_message_def sensor_on_message_body_def sensor_init_def
      topic_control_def)

text \<open>
  Claim C1, amended. The envelope the emitter sends about its flag is its status
  \<open>{connected, running, enabled, data}\<close>, not a copy of a command. When the flag is
  toggled from the emitter's own page, the emitter sets the flag and then publishes
  that envelope, with the new flag in it, once, on \<open>sensors/control/sub\<close>, which is
  not the control topic. When a command \<open>enable\<close> or \<open>disable\<close> whose target is the
  emitter's own id or \<open>all\<close> arrives on the control topic, the emitter sets the flag
  to the command's value and then, as the last thing it does, emits that envelope, with
  the new flag in it, to its web clients.
\<close>

theorem state_envelope_after_flag:
  "published (snd (handle_toggle_sensor s)) =
     [(''sensors/control/sub'', status_payload (fst (handle_toggle_sensor s)))] \<and>
   ''sensors/control/sub'' \<noteq> topic_control \<and>
   sensor_enabled (fst (handle_toggle_sensor s)) = (\<not> sensor_enabled s) \<and>
   py_getitem (status_payload (fst (handle_toggle_sensor s))) ''enabled'' =
     Inr (JBool (\<not> sensor_enabled s)) \<and>
   (topic msg = topic_control \<and> payload msg = Json (JObj items) \<and>
    map_of items ''command'' = Some (JStr c) \<and> (c = ''enable'' \<or> c = ''disable'') \<and>
    map_of items ''device_id'' = Some target \<and>
    (target = JStr (client_id s) \<or> target = JStr ''all'') \<longrightarrow>
      sensor_enabled (fst (sensor_on_message msg s)) = (c = ''enable'') \<and>
      snd (sensor_on_message msg s) \<noteq> [] \<and>
      last (snd (sensor_on_message msg s)) =
        Emit ''status_update'' (EJson (status_payload (fst (sensor_on_message msg s)))) \<and>
      py_getitem (status_payload (fst (sensor_on_message msg s))) ''enabled'' =
        Inr (JBool (c = ''enable'')))"
  by (auto simp add: handle_toggle_sensor_def status_payload_def topic_control_def
      sensor_on_message_def sensor_on_message_body_def)

theorem state_envelope_after_flag_witness:
  "topic \<lparr>topic = ''sensors/control'',
          payload = Json (JObj [(''command'', JStr ''disable''), (''device_id'', JStr ''all'')])\<rparr>
     = topic_control \<and>
   map_of [(''command'', JStr ''disable''), (''device_id'', JStr ''all'')] ''command''
     = Some (JStr ''disable'') \<and>
   map_of [(''command'', JStr ''disable''), (''device_id'', JStr ''all'')] ''device_id''
     = Some (JStr ''all'') \<and>
   sensor_enabled (fst (sensor_on_message
      \<lparr>topic = ''sensors/control'',
       payload = Json (JObj [(''command'', JStr ''disable''), (''device_id'', JStr ''all'')])\<rparr>
      (sensor_init ''sensor_001'' (DateTime ''t0'')))) = False \<and>
   published (snd (handle_toggle_sensor (sensor_init ''sensor_001'' (DateTime ''t0'')))) =
     [(''sensors/control/sub'',
       status_payload (fst (handle_toggle_sensor (sensor_init ''sensor_001'' (DateTime ''t0'')))))]"
  using state_envelope_after_flag [of "sensor_init ''sensor_001'' (DateTime ''t0'')"
      "\<lparr>topic = ''sensors/control'',
        payload = Json (JObj [(''command'', JStr ''disable''), (''device_id'', JStr ''all'')])\<rparr>"
      "[(''command'', JStr ''disable''), (''device_id'', JStr ''all'')]" "''disable''"
      "JStr ''all''"]
  by (simp add: topic_control_def)

subsection \<open>Observer: what serialisation changes\<close>

text \<open>\<open>_serialize_sensor_data\<close> leaves the outer dictionary as it is, and in the store
  it rewrites nothing but a \<open>timestamp\<close> that holds a \<open>datetime\<close>.\<close>

lemma serialize_timestamp_sensor_data:
  "sensor_data (snd (serialize_timestamp a s)) = sensor_data s"
  by (simp add: serialize_timestamp_def dict_setitem_def split: option.splits sum.splits)

lemma serialize_sensor_data_sensor_data:
  "sensor_data (snd (serialize_sensor_data s)) = sensor_data s"
proof -
  let ?t = "temperature (sensor_data s)" and ?h = "humidity (sensor_data s)"
  obtain r1 s1 where t: "serialize_timestamp ?t s = (r1, s1)"
    by (cases "serialize_timestamp ?t s")
  obtain r2 s2 where h: "serialize_timestamp ?h s1 = (r2, s2)"
    by (cases "serialize_timestamp ?h s1")
  have 1: "sensor_data s1 = sensor_data s"
    using serialize_timestamp_sensor_data [of ?t s] t by simp
  have 2: "sensor_data s2 = sensor_data s"
    using serialize_timestamp_sensor_data [of ?h s1] h 1 by simp
  show ?thesis
    using t h 1 2
    by (simp add: serialize_sensor_data_def Let_def split: sum.splits option.splits)
qed

lemma serialize_timestamp_keeps:
  "map_of (heap s a) k = Some (PJ v) \<Longrightarrow>
   map_of (heap (snd (serialize_timestamp b s)) a) k = Some (PJ v)"
  by (cases "map_of (heap s b) (KStr ''timestamp'')")
     (auto simp add: serialize_timestamp_def dict_setitem_def update_conv'
       split: option.splits sum.splits pyval.splits elim: pv_isoformat.elims)

lemma serialize_sensor_data_keeps:
  "map_of (heap s a) k = Some (PJ v) \<Longrightarrow>
   map_of (heap (snd (serialize_sensor_data s)) a) k = Some (PJ v)"
proof -
  assume start: "map_of (heap s a) k = Some (PJ v)"
  let ?t = "temperature (sensor_data s)" and ?h = "humidity (sensor_data s)"
  obtain r1 s1 where t: "serialize_timestamp ?t s = (r1, s1)"
    by (cases "serialize_timestamp ?t s")
  obtain r2 s2 where h: "serialize_timestamp ?h s1 = (r2, s2)"
    by (cases "serialize_timestamp ?h s1")
  have 1: "map_of (heap s1 a) k = Some (PJ v)"
    using serialize_timestamp_keeps [OF start, of ?t] t by simp
  have 2: "map_of (heap s2 a) k = Some (PJ v)"
    using serialize_timestamp_keeps [OF 1, of ?h] h by simp
  show ?thesis
    using start t h 1 2
    by (simp add: serialize_sensor_data_def Let_def split: sum.splits option.splits)
qed

lemma serialize_timestamp_other:
  "a \<noteq> b \<Longrightarrow> heap (snd (serialize_timestamp b s)) a = heap s a"
  by (simp add: serialize_timestamp_def dict_setitem_def split: option.splits sum.splits)

lemma serialize_sensor_data_other:
  "a \<noteq> temperature (sensor_data s) \<Longrightarrow> a \<noteq> humidity (sensor_data s) \<Longrightarrow>
   heap (snd (serialize_sensor_data s)) a = heap s a"
proof -
  assume nt: "a \<noteq> temperature (sensor_data s)" and nh: "a \<noteq> humidity (sensor_data s)"
  let ?t = "temperature (sensor_data s)" and ?h = "humidity (sensor_data s)"
  obtain r1 s1 where t: "serialize_timestamp ?t s = (r1, s1)"
    by (cases "serialize_timestamp ?t s")
  obtain r2 s2 where h: "serialize_timestamp ?h s1 = (r2, s2)"
    by (cases "serialize_timestamp ?h s1")
  have 1: "heap s1 a = heap s a"
    using serialize_timestamp_other [OF nt, of s] t by simp
  have 2: "heap s2 a = heap s a"
    using serialize_timestamp_other [OF nh, of s1] h 1 by simp
  show ?thesis
    using t h 1 2
    by (simp add: serialize_sensor_data_def Let_def split: sum.splits option.splits)
qed

subsection \<open>Observer: acknowledgements\<close>

lemma dict_setitem_twice: "dict_setitem a k v (dict_setitem a k v s) = dict_setitem a k v s"
  by (simp add: dict_setitem_def)

lemma sensor_data_dict_setitem: "sensor_data (dict_setitem a k v s) = sensor_data s"
  by (simp add: dict_setitem_def)

text \<open>
  On \<open>sensors/control/sub\<close>, \<open>on_message\<close> leaves the dictionary of states as
  \<open>handle_control_data\<close> leaves it, provided that dictionary is not the one held
  under \<open>temperature\<close> or \<open>humidity\<close>; delivering the same message again
  does not change it.
\<close>

lemma display_on_message_states:
  assumes "sensor_states (sensor_data s) \<noteq> temperature (sensor_data s)"
    and "sensor_states (sensor_data s) \<noteq> humidity (sensor_data s)"
    and "topic msg = ''sensors/control/sub''"
  shows "(sensor_data (fst (display_on_message now msg s)))\<lparr>last_update := l\<rparr> =
           (sensor_data s)\<lparr>last_update := l\<rparr> \<and>
     states_of (fst (display_on_message now msg s)) =
       states_of (fst (snd (handle_control_data
          (case payload msg of Json d \<Rightarrow> d | _ \<Rightarrow> JNull) s)))"
proof (cases "payload msg")
  case NotUtf8
  then show ?thesis by (simp add: display_on_message_def handle_control_data_def)
next
  case NotJson
  then show ?thesis by (simp add: display_on_message_def handle_control_data_def)
next
  case IntTooLong
  then show ?thesis by (simp add: display_on_message_def handle_control_data_def)
next
  case TooDeep
  then show ?thesis by (simp add: display_on_message_def handle_control_data_def)
next
  case (Json data)
  let ?s0 = "s\<lparr>message_count := message_count s + 1\<rparr>"
  obtain r s2 out where d: "handle_control_data data ?s0 = (r, s2, out)"
    by (cases "handle_control_data data ?s0")
  have sd2: "sensor_data s2 = sensor_data s"
    using d by (auto simp add: handle_control_data_def Let_def dict_setitem_def split: sum.splits)
  have st2: "states_of s2 = states_of (fst (snd (handle_control_data data s)))"
    using d
    by (auto simp add: handle_control_data_def Let_def dict_setitem_def states_of_def
        split: sum.splits)
  let ?s3 = "s2\<lparr>sensor_data := (sensor_data s2)\<lparr>last_update := PDateTime now\<rparr>\<rparr>"
  have h3: "heap (snd (serialize_sensor_data ?s3)) (sensor_states (sensor_data s)) =
            heap s2 (sensor_states (sensor_data s))"
    using serialize_sensor_data_other [of "sensor_states (sensor_data s)" ?s3] assms sd2 by simp
  have sd3: "sensor_data (snd (serialize_sensor_data ?s3)) = sensor_data ?s3"
    by (rule serialize_sensor_data_sensor_data)
  have "fst (display_on_message now msg s) = s2 \<or>
        fst (display_on_message now msg s) = snd (serialize_sensor_data ?s3)"
    using Json d assms(3)
    by (cases r)
       (auto simp add: display_on_message_def display_dispatch_def split: prod.splits sum.splits)
  then show ?thesis
    using sd2 st2 h3 sd3 Json by (auto simp add: states_of_def)
qed

lemma ack_message_twice:
  assumes "sensor_states (sensor_data s) \<noteq> temperature (sensor_data s)"
    and "sensor_states (sensor_data s) \<noteq> humidity (sensor_data s)"
    and "topic msg = ''sensors/control/sub''"
  shows "states_of (fst (display_on_message now' msg (fst (display_on_message now msg s)))) =
     states_of (fst (display_on_message now msg s))"
proof -
  let ?d = "case payload msg of Json d \<Rightarrow> d | _ \<Rightarrow> JNull"
  let ?s1 = "fst (display_on_message now msg s)"
  have one: "(sensor_data ?s1)\<lparr>last_update := PJ JNull\<rparr> =
             (sensor_data s)\<lparr>last_update := PJ JNull\<rparr>"
    and st1: "states_of ?s1 = states_of (fst (snd (handle_control_data ?d s)))"
    using display_on_message_states [OF assms, where now = now and l = "PJ JNull"] by simp_all
  have addr: "sensor_states (sensor_data ?s1) = sensor_states (sensor_data s)"
     "temperature (sensor_data ?s1) = temperature (sensor_data s)"
     "humidity (sensor_data ?s1) = humidity (sensor_data s)"
    using one
    by (metis sensor_data_dict.select_convs sensor_data_dict.surjective
        sensor_data_dict.update_convs)+
  have two: "states_of (fst (display_on_message now' msg ?s1)) =
      states_of (fst (snd (handle_control_data ?d ?s1)))"
    using display_on_message_states
      [where s = ?s1 and msg = msg and now = now' and l = "PJ JNull"] assms addr
    by simp
  have "states_of (fst (snd (handle_control_data ?d ?s1))) = states_of ?s1"
    using st1 addr(1)
    by (auto simp add: handle_control_data_def Let_def dict_setitem_def states_of_def
        split: sum.splits)
  then show ?thesis using two by simp
qed

text \<open>
  Claim C5. Handling the same acknowledgement a second time, right after the first,
  returns the same result and leaves the observer's object exactly as the first
  handling left it. The handler sets the entry of the named device to the value the
  message carries, whatever the entry was before. Delivered twice through
  \<open>on_message\<close>, the message leaves the dictionary of states as one delivery
  leaves it (the dictionary being, as it is from \<open>__init__\<close> on, another object
  than the ones held under \<open>temperature\<close> and \<open>humidity\<close>).
\<close>

theorem handle_control_data_idempotent:
  "handle_control_data data (fst (snd (handle_control_data data s))) =
     handle_control_data data s \<and>
   (py_get data ''enabled'' (JBool False) = Inr enabled \<and>
    py_get data ''data'' (JObj []) = Inr inner \<and>
    py_get inner ''sensor_id'' (JStr ''all'') = Inr device_id \<and>
    to_key device_id = Inr k \<longrightarrow>
      state_of (fst (snd (handle_control_data data s))) k = Some (PJ enabled)) \<and>
   (sensor_states (sensor_data s) \<noteq> temperature (sensor_data s) \<and>
    sensor_states (sensor_data s) \<noteq> humidity (sensor_data s) \<and>
    topic msg = ''sensors/control/sub'' \<longrightarrow>
      states_of (fst (display_on_message now' msg (fst (display_on_message now msg s)))) =
      states_of (fst (display_on_message now msg s)))"
proof -
  have twice: "handle_control_data data (fst (snd (handle_control_data data s))) =
     handle_control_data data s"
    by (simp add: handle_control_data_def Let_def dict_setitem_twice sensor_data_dict_setitem
        split: sum.splits)
  have sets: "py_get data ''enabled'' (JBool False) = Inr enabled \<and>
    py_get data ''data'' (JObj []) = Inr inner \<and>
    py_get inner ''sensor_id'' (JStr ''all'') = Inr device_id \<and>
    to_key device_id = Inr k \<longrightarrow>
      state_of (fst (snd (handle_control_data data s))) k = Some (PJ enabled)"
    by (simp add: handle_control_data_def Let_def state_of_def states_of_def dict_setitem_def
        update_conv')
  have delivered: "sensor_states (sensor_data s) \<noteq> temperature (sensor_data s) \<and>
    sensor_states (sensor_data s) \<noteq> humidity (sensor_data s) \<and>
    topic msg = ''sensors/control/sub'' \<longrightarrow>
      states_of (fst (display_on_message now' msg (fst (display_on_message now msg s)))) =
      states_of (fst (display_on_message now msg s))"
    using ack_message_twice [of s msg now' now] by blast
  show ?thesis
    using twice sets delivered by blast
qed

theorem handle_control_data_idempotent_witness:
  "py_get (JObj [(''enabled'', JBool True), (''data'', JObj [(''sensor_id'', JStr ''B'')])])
      ''enabled'' (JBool False) = Inr (JBool True) \<and>
   py_get (JObj [(''enabled'', JBool True), (''data'', JObj [(''sensor_id'', JStr ''B'')])])
      ''data'' (JObj []) = Inr (JObj [(''sensor_id'', JStr ''B'')]) \<and>
   py_get (JObj [(''sensor_id'', JStr ''B'')]) ''sensor_id'' (JStr ''all'') = Inr (JStr ''B'') \<and>
   to_key (JStr ''B'') = Inr (KStr ''B'') \<and>
   state_of (fst (snd (handle_control_data
       (JObj [(''enabled'', JBool True), (''data'', JObj [(''sensor_id'', JStr ''B'')])])
       (display_init ''display_001'')))) (KStr ''B'') = Some (PJ (JBool True)) \<and>
   handle_control_data
       (JObj [(''enabled'', JBool True), (''data'', JObj [(''sensor_id'', JStr ''B'')])])
       (fst (snd (handle_control_data
          (JObj [(''enabled'', JBool True), (''data'', JObj [(''sensor_id'', JStr ''B'')])])
          (display_init ''display_001'')))) =
     handle_control_data
       (JObj [(''enabled'', JBool True), (''data'', JObj [(''sensor_id'', JStr ''B'')])])
       (display_init ''display_001'') \<and>
   sensor_states (sensor_data (display_init ''display_001'')) \<noteq>
     temperature (sensor_data (display_init ''display_001'')) \<and>
   sensor_states (sensor_data (display_init ''display_001'')) \<noteq>
     humidity (sensor_data (display_init ''display_001'')) \<and>
   states_of (fst (display_on_message (DateTime ''t2'')
       \<lparr>topic = ''sensors/control/sub'',
        payload = Json (JObj [(''enabled'', JBool True),
                              (''data'', JObj [(''sensor_id'', JStr ''B'')])])\<rparr>
       (fst (display_on_message (DateTime ''t1'')
          \<lparr>topic = ''sensors/control/sub'',
           payload = Json (JObj [(''enabled'', JBool True),
                                 (''data'', JObj [(''sensor_id'', JStr ''B'')])])\<rparr>
          (display_init ''display_001''))))) =
   states_of (fst (display_on_message (DateTime ''t1'')
       \<lparr>topic = ''sensors/control/sub'',
        payload = Json (JObj [(''enabled'', JBool True),
                              (''data'', JObj [(''sensor_id'', JStr ''B'')])])\<rparr>
       (display_init ''display_001'')))"
proof -
  have addrs: "sensor_states (sensor_data (display_init ''display_001'')) \<noteq>
       temperature (sensor_data (display_init ''display_001'')) \<and>
     sensor_states (sensor_data (display_init ''display_001'')) \<noteq>
       humidity (sensor_data (display_init ''display_001''))"
    by (simp add: display_init_def)
  show ?thesis
    using addrs handle_control_data_idempotent
      [where data = "JObj [(''enabled'', JBool True),
                           (''data'', JObj [(''sensor_id'', JStr ''B'')])]"
         and s = "display_init ''display_001''" and enabled = "JBool True"
         and inner = "JObj [(''sensor_id'', JStr ''B'')]" and device_id = "JStr ''B''"
         and k = "KStr ''B''"
         and msg = "\<lparr>topic = ''sensors/control/sub'',
                     payload = Json (JObj [(''enabled'', JBool True),
                                           (''data'', JObj [(''sensor_id'', JStr ''B'')])])\<rparr>"
         and now = "DateTime ''t1''" and now' = "DateTime ''t2''"]
    by simp
qed

lemmas observer_eval =
  observer_run_def display_on_message_def display_dispatch_def handle_combined_data_def
  handle_control_data_def handle_control_device_def send_control_command_def
  serialize_sensor_data_def serialize_timestamp_def dict_setitem_def dict_contains_def
  display_init_def states_of_def state_of_def py_in_def py_eq_def Let_def

text \<open>
  Claim C3, evaluated on the code. The observer has seen readings of the devices \<open>A\<close>
  and \<open>B\<close>, both enabled, and receives on \<open>sensors/control/sub\<close> a message with
  \<open>enabled\<close> false that names no \<open>sensor_id\<close>, for which \<open>handle_control_data\<close>
  takes the target \<open>all\<close>. The entries of \<open>A\<close> and \<open>B\<close> stay true, and a
  device called \<open>all\<close> is entered as disabled.
\<close>

theorem control_data_all_not_expanded:
  "states_of (observer_run
     [(DateTime ''t1'', Message \<lparr>topic = ''sensors/temp_humidity'',
         payload = Json (JObj [(''temperature'', JNum 21), (''humidity'', JNum 40),
                               (''sensor_id'', JStr ''A'')])\<rparr>),
      (DateTime ''t2'', Message \<lparr>topic = ''sensors/temp_humidity'',
         payload = Json (JObj [(''temperature'', JNum 22), (''humidity'', JNum 41),
                               (''sensor_id'', JStr ''B'')])\<rparr>),
      (DateTime ''t3'', Message \<lparr>topic = ''sensors/control/sub'',
         payload = Json (JObj [(''enabled'', JBool False)])\<rparr>)]
     (display_init ''display_001'')) =
   [(KStr ''A'', PJ (JBool True)), (KStr ''B'', PJ (JBool True)),
    (KStr ''all'', PJ (JBool False))]"
  by (simp add: observer_eval)

subsection \<open>Observer: optimistic edits and acknowledgements\<close>

lemma observer_run_snoc: "observer_run (evs @ [ev]) s = observer_step ev (observer_run evs s)"
  by (simp add: observer_run_def)

lemma edit_applied:
  "edit_value k data = Some v \<Longrightarrow>
   state_of (fst (snd (handle_control_device now data s))) k = Some (PJ v)"
proof -
  assume ev: "edit_value k data = Some v"
  obtain command device_id where
    c: "py_get data ''command'' (JStr []) = Inr command" and
    d: "py_get data ''device_id'' (JStr ''all'') = Inr device_id" and
    ok: "command = JStr ''enable'' \<or> command = JStr ''disable''" and
    na: "device_id \<noteq> JStr ''all''" and
    key: "to_key device_id = Inr k" and
    v: "v = JBool (command = JStr ''enable'')"
    using ev by (auto simp add: edit_value_def split: sum.splits if_splits)
  let ?s1 = "dict_setitem (sensor_states (sensor_data s)) k (PJ v) s"
  have s1: "map_of (heap ?s1 (sensor_states (sensor_data s))) k = Some (PJ v)"
    by (simp add: dict_setitem_def update_conv')
  have keep: "map_of (heap (snd (serialize_sensor_data ?s1)) (sensor_states (sensor_data s))) k = Some (PJ v)"
    using s1 by (rule serialize_sensor_data_keeps)
  have sd: "sensor_data (snd (serialize_sensor_data ?s1)) = sensor_data s"
    by (simp add: serialize_sensor_data_sensor_data dict_setitem_def)
  have "fst (snd (handle_control_device now data s)) = snd (serialize_sensor_data ?s1)"
    using c d ok na key v
    by (auto simp add: handle_control_device_def Let_def split: prod.splits sum.splits)
  then show ?thesis
    using keep sd by (simp add: state_of_def states_of_def)
qed

lemma ack_applied:
  "ack_value k msg = Some v \<Longrightarrow>
   state_of (fst (display_on_message now msg s)) k = Some (PJ v)"
proof -
  assume av: "ack_value k msg = Some v"
  obtain data inner device_id where
    tp: "topic msg = ''sensors/control/sub''" and
    pl: "payload msg = Json data" and
    en: "py_get data ''enabled'' (JBool False) = Inr v" and
    inn: "py_get data ''data'' (JObj []) = Inr inner" and
    dev: "py_get inner ''sensor_id'' (JStr ''all'') = Inr device_id" and
    key: "to_key device_id = Inr k"
    using av by (auto simp add: ack_value_def split: sum.splits if_splits wire.splits)
  let ?s0 = "s\<lparr>message_count := message_count s + 1\<rparr>"
  let ?s1 = "dict_setitem (sensor_states (sensor_data s)) k (PJ v) ?s0"
  let ?s2 = "?s1\<lparr>sensor_data := (sensor_data ?s1)\<lparr>last_update := PDateTime now\<rparr>\<rparr>"
  have s2: "map_of (heap ?s2 (sensor_states (sensor_data s))) k = Some (PJ v)"
    by (simp add: dict_setitem_def update_conv')
  have keep: "map_of (heap (snd (serialize_sensor_data ?s2)) (sensor_states (sensor_data s))) k = Some (PJ v)"
    using s2 by (rule serialize_sensor_data_keeps)
  have sd: "sensor_states (sensor_data (snd (serialize_sensor_data ?s2))) = sensor_states (sensor_data s)"
    by (simp add: serialize_sensor_data_sensor_data dict_setitem_def)
  have "fst (display_on_message now msg s) = snd (serialize_sensor_data ?s2)"
    using tp pl en inn dev key
    by (auto simp add: display_on_message_def display_dispatch_def handle_control_data_def Let_def
        split: prod.splits sum.splits)
  then show ?thesis
    using keep sd by (simp add: state_of_def states_of_def)
qed

lemma last_ack_value_snoc:
  "ack_value k msg = Some v \<Longrightarrow> last_ack_value k (evs @ [(now, Message msg)]) = Some v"
proof (induction evs)
  case Nil
  then show ?case by simp
next
  case (Cons ev evs)
  obtain t e where ev: "ev = (t, e)" by (cases ev)
  show ?case using Cons ev by (cases e) simp_all
qed

text \<open>
  Claim C4 as stated fails: the observer receives an acknowledgement that the device
  \<open>A\<close> is enabled and then issues \<open>disable\<close> for \<open>A\<close>. The last acknowledgement
  received carried true, and the stored flag is false.
\<close>

theorem edit_after_acknowledgement:
  "last_ack_value (KStr ''A'')
     [(DateTime ''t1'', Message \<lparr>topic = ''sensors/control/sub'',
         payload = Json (JObj [(''enabled'', JBool True),
                               (''data'', JObj [(''sensor_id'', JStr ''A'')])])\<rparr>),
      (DateTime ''t2'', ControlDevice (JObj [(''command'', JStr ''disable''),
                                             (''device_id'', JStr ''A'')]))]
     = Some (JBool True) \<and>
   state_of (observer_run
     [(DateTime ''t1'', Message \<lparr>topic = ''sensors/control/sub'',
         payload = Json (JObj [(''enabled'', JBool True),
                               (''data'', JObj [(''sensor_id'', JStr ''A'')])])\<rparr>),
      (DateTime ''t2'', ControlDevice (JObj [(''command'', JStr ''disable''),
                                             (''device_id'', JStr ''A'')]))]
     ((display_init ''display_001'')\<lparr>is_connected := True\<rparr>)) (KStr ''A'')
     = Some (PJ (JBool False))"
  by (simp add: observer_eval ack_value_def)

text \<open>
  Claim C4, amended. Issuing \<open>enable\<close> or \<open>disable\<close> for a device sets its stored
  flag at once, and an acknowledgement for the device that arrives later overwrites
  it. After any run of events that ends with an optimistic edit or an acknowledgement
  for the device, the stored flag is the value that last event carries, whichever of
  the two it is: it is the value of the last acknowledgement received when that
  acknowledgement is the last event, and the value of the optimistic edit when the edit
  came after it.
\<close>

theorem last_event_wins:
  "evs \<noteq> [] \<Longrightarrow> carried k (snd (last evs)) = Some v \<Longrightarrow>
   state_of (observer_run evs s) k = Some (PJ v) \<and>
   ((\<exists>msg. snd (last evs) = Message msg) \<longrightarrow> last_ack_value k evs = Some v)"
proof -
  assume ne: "evs \<noteq> []" and car: "carried k (snd (last evs)) = Some v"
  obtain now ev where l: "last evs = (now, ev)" by (cases "last evs")
  have evs: "evs = butlast evs @ [(now, ev)]"
    using ne l by (metis append_butlast_last_id)
  have step: "state_of (observer_step (now, ev) (observer_run (butlast evs) s)) k = Some (PJ v)"
    using car l by (cases ev) (simp_all add: edit_applied ack_applied)
  have run: "state_of (observer_run evs s) k = Some (PJ v)"
    using step observer_run_snoc [of "butlast evs" "(now, ev)" s] evs by simp
  have ack: "(\<exists>msg. snd (last evs) = Message msg) \<longrightarrow> last_ack_value k evs = Some v"
  proof
    assume "\<exists>msg. snd (last evs) = Message msg"
    then obtain msg where m: "ev = Message msg" using l by auto
    then have "ack_value k msg = Some v" using car l by simp
    then have "last_ack_value k (butlast evs @ [(now, Message msg)]) = Some v"
      by (rule last_ack_value_snoc)
    then show "last_ack_value k evs = Some v" using evs m by simp
  qed
  show ?thesis using run ack by (rule conjI)
qed

theorem last_event_wins_witness:
  "[(DateTime ''t1'', Message \<lparr>topic = ''sensors/control/sub'',
         payload = Json (JObj [(''enabled'', JBool True),
                               (''data'', JObj [(''sensor_id'', JStr ''A'')])])\<rparr>),
      (DateTime ''t2'', ControlDevice (JObj [(''command'', JStr ''disable''),
                                             (''device_id'', JStr ''A'')]))] \<noteq> [] \<and>
   carried (KStr ''A'') (ControlDevice (JObj [(''command'', JStr ''disable''),
                                             (''device_id'', JStr ''A'')]))
     = Some (JBool False) \<and>
   state_of (observer_run
     [(DateTime ''t1'', Message \<lparr>topic = ''sensors/control/sub'',
         payload = Json (JObj [(''enabled'', JBool True),
                               (''data'', JObj [(''sensor_id'', JStr ''A'')])])\<rparr>),
      (DateTime ''t2'', ControlDevice (JObj [(''command'', JStr ''disable''),
                                             (''device_id'', JStr ''A'')]))]
     (display_init ''display_001'')) (KStr ''A'') = Some (PJ (JBool False)) \<and>
   carried (KStr ''A'') (Message \<lparr>topic = ''sensors/control/sub'',
         payload = Json (JObj [(''enabled'', JBool True),
                               (''data'', JObj [(''sensor_id'', JStr ''A'')])])\<rparr>)
     = Some (JBool True) \<and>
   state_of (observer_run
     [(DateTime ''t1'', ControlDevice (JObj [(''command'', JStr ''disable''),
                                             (''device_id'', JStr ''A'')])),
      (DateTime ''t2'', Message \<lparr>topic = ''sensors/control/sub'',
         payload = Json (JObj [(''enabled'', JBool True),
                               (''data'', JObj [(''sensor_id'', JStr ''A'')])])\<rparr>)]
     (display_init ''display_001'')) (KStr ''A'') = Some (PJ (JBool True)) \<and>
   last_ack_value (KStr ''A'')
     [(DateTime ''t1'', ControlDevice (JObj [(''command'', JStr ''disable''),
                                             (''device_id'', JStr ''A'')])),
      (DateTime ''t2'', Message \<lparr>topic = ''sensors/control/sub'',
         payload = Json (JObj [(''enabled'', JBool True),
                               (''data'', JObj [(''sensor_id'', JStr ''A'')])])\<rparr>)]
     = Some (JBool True)"
  using last_event_wins
    [of "[(DateTime ''t1'', Message \<lparr>topic = ''sensors/control/sub'',
         payload = Json (JObj [(''enabled'', JBool True),
                               (''data'', JObj [(''sensor_id'', JStr ''A'')])])\<rparr>),
      (DateTime ''t2'', ControlDevice (JObj [(''command'', JStr ''disable''),
                                             (''device_id'', JStr ''A'')]))]"
        "KStr ''A''" "JBool False" "display_init ''display_001''"]
    last_event_wins
    [of "[(DateTime ''t1'', ControlDevice (JObj [(''command'', JStr ''disable''),
                                             (''device_id'', JStr ''A'')])),
      (DateTime ''t2'', Message \<lparr>topic = ''sensors/control/sub'',
         payload = Json (JObj [(''enabled'', JBool True),
                               (''data'', JObj [(''sensor_id'', JStr ''A'')])])\<rparr>)]"
        "KStr ''A''" "JBool True" "display_init ''display_001''"]
  by (simp add: edit_value_def ack_value_def)

subsection \<open>Observer: snapshots\<close>

text \<open>
  Claim C7, evaluated on the code. The observer has seen one reading of the device
  \<open>A\<close>, which is enabled. \<open>_serialize_sensor_data\<close> returns a copy of the outer
  dictionary whose entry \<open>sensor_states\<close> holds the address of the store's own
  dictionary. The caller's assignment \<open>snapshot["sensor_states"]["A"] = False\<close> is
  an assignment to the dictionary at that address: afterwards the store has \<open>A\<close>
  disabled.
\<close>

theorem snapshot_shares_sensor_states:
  "fst (serialize_sensor_data (observer_run
     [(DateTime ''t1'', Message \<lparr>topic = ''sensors/temp_humidity'',
         payload = Json (JObj [(''temperature'', JNum 21), (''humidity'', JNum 40),
                               (''sensor_id'', JStr ''A'')])\<rparr>)]
     (display_init ''display_001''))) =
   Inr \<lparr>temperature = 0, humidity = 1,
        combined = JObj [(''temperature'', JNum 21), (''humidity'', JNum 40),
                         (''sensor_id'', JStr ''A'')],
        last_update = PJ (JStr ''t1''), sensor_states = 2\<rparr> \<and>
   state_of (snd (serialize_sensor_data (observer_run
     [(DateTime ''t1'', Message \<lparr>topic = ''sensors/temp_humidity'',
         payload = Json (JObj [(''temperature'', JNum 21), (''humidity'', JNum 40),
                               (''sensor_id'', JStr ''A'')])\<rparr>)]
     (display_init ''display_001'')))) (KStr ''A'') = Some (PJ (JBool True)) \<and>
   state_of (dict_setitem 2 (KStr ''A'') (PJ (JBool False))
     (snd (serialize_sensor_data (observer_run
     [(DateTime ''t1'', Message \<lparr>topic = ''sensors/temp_humidity'',
         payload = Json (JObj [(''temperature'', JNum 21), (''humidity'', JNum 40),
                               (''sensor_id'', JStr ''A'')])\<rparr>)]
     (display_init ''display_001''))))) (KStr ''A'') = Some (PJ (JBool False))"
  by (simp add: observer_eval)

subsection \<open>Observer: readings\<close>

lemma set_all_states_sensor_data:
  "sensor_data (snd (set_all_states devices v s)) = sensor_data s"
  by (induction devices arbitrary: s) (simp_all add: dict_setitem_def split: sum.splits)

lemma serialize_sensor_data_combined:
  "serialize_sensor_data s = (Inr snap, s') \<Longrightarrow> combined snap = combined (sensor_data s)"
  by (auto simp add: serialize_sensor_data_def Let_def split: sum.splits prod.splits option.splits if_splits)

lemma handle_combined_data_combined:
  "combined (sensor_data (snd (handle_combined_data data s))) = data"
  by (simp add: handle_combined_data_def Let_def dict_setitem_def split: sum.splits)

lemma display_dispatch_combined:
  "combined (sensor_data (fst (snd (display_dispatch tp data s)))) =
     (if tp = ''sensors/temp_humidity'' then data else combined (sensor_data s))"
  by (simp add: display_dispatch_def handle_temperature_data_def handle_humidity_data_def
      handle_combined_data_combined handle_control_data_def dict_setitem_def Let_def split_beta
      split: sum.splits)

lemma display_on_message_combined:
  "combined (sensor_data (fst (display_on_message now msg s))) =
     (case reading_of (Message msg) of Some d \<Rightarrow> d | None \<Rightarrow> combined (sensor_data s))"
proof (cases "payload msg")
  case NotUtf8
  then show ?thesis by (simp add: display_on_message_def)
next
  case NotJson
  then show ?thesis by (simp add: display_on_message_def)
next
  case IntTooLong
  then show ?thesis by (simp add: display_on_message_def)
next
  case TooDeep
  then show ?thesis by (simp add: display_on_message_def)
next
  case (Json data)
  let ?s0 = "s\<lparr>message_count := message_count s + 1\<rparr>"
  obtain r s2 out where d: "display_dispatch (topic msg) data ?s0 = (r, s2, out)"
    by (cases "display_dispatch (topic msg) data ?s0")
  have c2: "combined (sensor_data s2) =
      (if topic msg = ''sensors/temp_humidity'' then data else combined (sensor_data s))"
    using display_dispatch_combined [of "topic msg" data ?s0] d by simp
  let ?s3 = "s2\<lparr>sensor_data := (sensor_data s2)\<lparr>last_update := PDateTime now\<rparr>\<rparr>"
  have c3: "combined (sensor_data (snd (serialize_sensor_data ?s3))) = combined (sensor_data s2)"
    by (simp add: serialize_sensor_data_sensor_data)
  have "fst (display_on_message now msg s) = s2 \<or>
        fst (display_on_message now msg s) = snd (serialize_sensor_data ?s3)"
    using Json d
    by (cases r) (auto simp add: display_on_message_def split: prod.splits sum.splits)
  then show ?thesis
    using c2 c3 Json by auto
qed

lemma handle_control_device_combined:
  "combined (sensor_data (fst (snd (handle_control_device now data s)))) = combined (sensor_data s)"
proof -
  have ser: "\<And>x. sensor_data (snd (serialize_sensor_data x)) = sensor_data x"
    by (rule serialize_sensor_data_sensor_data)
  have all: "\<And>v. sensor_data (snd (set_all_states (connected_devices s) v s)) = sensor_data s"
    by (rule set_all_states_sensor_data)
  show ?thesis
    apply (simp add: handle_control_device_def Let_def split: sum.splits)
    apply (intro allI impI conjI)
    apply (auto simp add: split_beta dict_setitem_def ser all split: option.splits prod.splits sum.splits)
    done
qed


lemma observer_step_combined:
  "combined (sensor_data (observer_step (now, ev) s)) =
     (case reading_of ev of Some d \<Rightarrow> d | None \<Rightarrow> combined (sensor_data s))"
proof (cases ev)
  case (Message msg)
  then show ?thesis using display_on_message_combined [of now msg s] by simp
next
  case (ControlDevice data)
  then show ?thesis by (simp add: handle_control_device_combined)
qed

lemma observer_run_combined:
  "combined (sensor_data (observer_run evs s)) =
     (case last_reading evs of Some d \<Rightarrow> d | None \<Rightarrow> combined (sensor_data s))"
proof (induction evs arbitrary: s)
  case Nil
  then show ?case by (simp add: observer_run_def)
next
  case (Cons e evs)
  obtain now ev where e: "e = (now, ev)" by (cases e)
  have run: "observer_run (e # evs) s = observer_run evs (observer_step e s)"
    by (simp add: observer_run_def)
  show ?case
    using Cons.IH [of "observer_step e s"] observer_step_combined [of now ev s] e run
    by (simp split: option.splits)
qed

text \<open>
  Claim C6 as stated fails: the observer receives a reading of the device \<open>A\<close> and
  then a reading of the device \<open>B\<close>. The snapshot holds the reading of \<open>B\<close> in its
  only slot for a reading and the temperature of \<open>B\<close> in its temperature entry; the
  most recent reading of \<open>A\<close> has been replaced.
\<close>

theorem reading_replaced_by_other_device:
  "fst (serialize_sensor_data (observer_run
     [(DateTime ''t1'', Message \<lparr>topic = ''sensors/temp_humidity'',
         payload = Json (JObj [(''temperature'', JNum 21), (''humidity'', JNum 40),
                               (''sensor_id'', JStr ''A'')])\<rparr>),
      (DateTime ''t2'', Message \<lparr>topic = ''sensors/temp_humidity'',
         payload = Json (JObj [(''temperature'', JNum 22), (''humidity'', JNum 41),
                               (''sensor_id'', JStr ''B'')])\<rparr>)]
     (display_init ''display_001''))) =
   Inr \<lparr>temperature = 0, humidity = 1,
        combined = JObj [(''temperature'', JNum 22), (''humidity'', JNum 41),
                         (''sensor_id'', JStr ''B'')],
        last_update = PJ (JStr ''t2''), sensor_states = 2\<rparr> \<and>
   map_of (heap (snd (serialize_sensor_data (observer_run
     [(DateTime ''t1'', Message \<lparr>topic = ''sensors/temp_humidity'',
         payload = Json (JObj [(''temperature'', JNum 21), (''humidity'', JNum 40),
                               (''sensor_id'', JStr ''A'')])\<rparr>),
      (DateTime ''t2'', Message \<lparr>topic = ''sensors/temp_humidity'',
         payload = Json (JObj [(''temperature'', JNum 22), (''humidity'', JNum 41),
                               (''sensor_id'', JStr ''B'')])\<rparr>)]
     (display_init ''display_001'')))) 0) (KStr ''value'') = Some (PJ (JNum 22))"
  by (simp add: observer_eval)

text \<open>
  Claim C6, amended. The observer keeps one reading for all devices. After every run
  of events in which a reading has been delivered, the entry \<open>combined\<close> of the store,
  and of every snapshot taken then, is exactly the payload delivered last on the
  readings topic, whole and with no field of an earlier reading merged into it,
  whichever device sent it.
\<close>

theorem snapshot_holds_last_reading:
  "last_reading evs = Some data \<Longrightarrow>
   combined (sensor_data (observer_run evs s)) = data \<and>
   (fst (serialize_sensor_data (observer_run evs s)) = Inr snap \<longrightarrow>
      combined snap = data \<and>
      view_combined (view (snd (serialize_sensor_data (observer_run evs s))) snap) = data)"
proof -
  assume l: "last_reading evs = Some data"
  have c: "combined (sensor_data (observer_run evs s)) = data"
    using observer_run_combined [of evs s] l by simp
  have "fst (serialize_sensor_data (observer_run evs s)) = Inr snap \<longrightarrow> combined snap = data"
    using c serialize_sensor_data_combined
      [of "observer_run evs s" snap "snd (serialize_sensor_data (observer_run evs s))"]
    by (cases "serialize_sensor_data (observer_run evs s)") auto
  then show ?thesis
    using c by (simp add: view_def)
qed

theorem snapshot_holds_last_reading_witness:
  "last_reading
     [(DateTime ''t1'', Message \<lparr>topic = ''sensors/temp_humidity'',
         payload = Json (JObj [(''temperature'', JNum 21), (''humidity'', JNum 40),
                               (''sensor_id'', JStr ''A'')])\<rparr>),
      (DateTime ''t2'', Message \<lparr>topic = ''sensors/temp_humidity'',
         payload = Json (JObj [(''temperature'', JNum 22), (''humidity'', JNum 41),
                               (''sensor_id'', JStr ''B'')])\<rparr>)] =
     Some (JObj [(''temperature'', JNum 22), (''humidity'', JNum 41),
                 (''sensor_id'', JStr ''B'')]) \<and>
   fst (serialize_sensor_data (observer_run
     [(DateTime ''t1'', Message \<lparr>topic = ''sensors/temp_humidity'',
         payload = Json (JObj [(''temperature'', JNum 21), (''humidity'', JNum 40),
                               (''sensor_id'', JStr ''A'')])\<rparr>),
      (DateTime ''t2'', Message \<lparr>topic = ''sensors/temp_humidity'',
         payload = Json (JObj [(''temperature'', JNum 22), (''humidity'', JNum 41),
                               (''sensor_id'', JStr ''B'')])\<rparr>)]
     (display_init ''display_001''))) =
   Inr \<lparr>temperature = 0, humidity = 1,
        combined = JObj [(''temperature'', JNum 22), (''humidity'', JNum 41),
                         (''sensor_id'', JStr ''B'')],
        last_update = PJ (JStr ''t2''), sensor_states = 2\<rparr> \<and>
   combined (sensor_data (observer_run
     [(DateTime ''t1'', Message \<lparr>topic = ''sensors/temp_humidity'',
         payload = Json (JObj [(''temperature'', JNum 21), (''humidity'', JNum 40),
                               (''sensor_id'', JStr ''A'')])\<rparr>),
      (DateTime ''t2'', Message \<lparr>topic = ''sensors/temp_humidity'',
         payload = Json (JObj [(''temperature'', JNum 22), (''humidity'', JNum 41),
                               (''sensor_id'', JStr ''B'')])\<rparr>)]
     (display_init ''display_001''))) =
     JObj [(''temperature'', JNum 22), (''humidity'', JNum 41), (''sensor_id'', JStr ''B'')]"
proof -
  have l: "last_reading
     [(DateTime ''t1'', Message \<lparr>topic = ''sensors/temp_humidity'',
         payload = Json (JObj [(''temperature'', JNum 21), (''humidity'', JNum 40),
                               (''sensor_id'', JStr ''A'')])\<rparr>),
      (DateTime ''t2'', Message \<lparr>topic = ''sensors/temp_humidity'',
         payload = Json (JObj [(''temperature'', JNum 22), (''humidity'', JNum 41),
                               (''sensor_id'', JStr ''B'')])\<rparr>)] =
     Some (JObj [(''temperature'', JNum 22), (''humidity'', JNum 41),
                 (''sensor_id'', JStr ''B'')])"
    by simp
  have f: "fst (serialize_sensor_data (observer_run
     [(DateTime ''t1'', Message \<lparr>topic = ''sensors/temp_humidity'',
         payload = Json (JObj [(''temperature'', JNum 21), (''humidity'', JNum 40),
                               (''sensor_id'', JStr ''A'')])\<rparr>),
      (DateTime ''t2'', Message \<lparr>topic = ''sensors/temp_humidity'',
         payload = Json (JObj [(''temperature'', JNum 22), (''humidity'', JNum 41),
                               (''sensor_id'', JStr ''B'')])\<rparr>)]
     (display_init ''display_001''))) =
   Inr \<lparr>temperature = 0, humidity = 1,
        combined = JObj [(''temperature'', JNum 22), (''humidity'', JNum 41),
                         (''sensor_id'', JStr ''B'')],
        last_update = PJ (JStr ''t2''), sensor_states = 2\<rparr>"
    by (simp add: observer_eval)
  show ?thesis
    using l f snapshot_holds_last_reading [OF l, of "display_init ''display_001''"]
    by simp
qed

end
